theory Spec2Isabelle
  imports Main "HOL-Library.Sublist"
begin

section \<open>ORCA Input Builder: the document assembler\<close>

text \<open>
  The repository is one Python file, \<^verbatim>\<open>ORCA-Input-Builder.py\<close>. Its core is the three
  methods \<^verbatim>\<open>build_keywords\<close>, \<^verbatim>\<open>format_coords\<close> and \<^verbatim>\<open>build_input\<close> of the class
  \<^verbatim>\<open>ORCAInputBuilder\<close>; everything else is Tk widget plumbing. The methods read the
  Tk variables of the object and the two text widgets and return a string.

  A Python \<^verbatim>\<open>str\<close> is a sequence of code points. Here a string is a \<^typ>\<open>string\<close>, and a
  \<^typ>\<open>char\<close> stands for the code point with the same number, so the model covers the
  texts over U+0000 .. U+00FF. The character classes of Python are written out for this
  range.
\<close>

subsection \<open>The string methods of Python that the code calls\<close>

text \<open>
  \<^verbatim>\<open>str.isspace\<close> on one character: the code points below U+0100 that Python counts as
  whitespace are TAB, LF, VT, FF, CR, the separators U+001C .. U+001F, the space,
  NEL (U+0085) and the no-break space (U+00A0).
\<close>

definition isspace :: "char \<Rightarrow> bool" where
  "isspace c \<longleftrightarrow> c \<in> set [CHR 0x09, CHR 0x0A, CHR 0x0B, CHR 0x0C, CHR 0x0D,
                           CHR 0x1C, CHR 0x1D, CHR 0x1E, CHR 0x1F, CHR 0x20,
                           CHR 0x85, CHR 0xA0]"

text \<open>
  \<^verbatim>\<open>s.strip()\<close>: skip whitespace from the left, then from the right.
\<close>

definition strip :: "string \<Rightarrow> string" where
  "strip s = rev (dropWhile isspace (rev (dropWhile isspace s)))"

text \<open>
  The line boundaries of \<^verbatim>\<open>str.splitlines\<close> below U+0100: LF, CR, VT, FF, the
  separators U+001C .. U+001E and NEL; CR followed by LF is one boundary.
\<close>

definition is_linebreak :: "char \<Rightarrow> bool" where
  "is_linebreak c \<longleftrightarrow> c \<in> set [CHR 0x0A, CHR 0x0D, CHR 0x0B, CHR 0x0C,
                                CHR 0x1C, CHR 0x1D, CHR 0x1E, CHR 0x85]"

text \<open>
  \<^verbatim>\<open>s.splitlines()\<close>, as CPython's loop does it: read up to the next line boundary, step
  over the boundary (two characters for CR LF), append the line read. A text that ends
  in a boundary has no empty last line, and the empty text has no line.
\<close>

function splitlines :: "string \<Rightarrow> string list" where
  "splitlines s =
     (if s = [] then []
      else takeWhile (\<lambda>c. \<not> is_linebreak c) s #
           (case dropWhile (\<lambda>c. \<not> is_linebreak c) s of
              [] \<Rightarrow> []
            | c # cs \<Rightarrow>
                (if c = CHR 0x0D \<and> take 1 cs = [CHR 0x0A] then splitlines (drop 1 cs)
                 else splitlines cs)))"
  by pat_completeness auto
termination
proof (relation "measure length", goal_cases)
  case 1
  show ?case by simp
next
  case (2 s c cs)
  have "length (dropWhile (\<lambda>c. \<not> is_linebreak c) s) \<le> length s"
    by (rule length_dropWhile_le)
  with 2 show ?case by simp
next
  case (3 s c cs)
  have "length (dropWhile (\<lambda>c. \<not> is_linebreak c) s) \<le> length s"
    by (rule length_dropWhile_le)
  with 3 show ?case by simp
qed

declare splitlines.simps [simp del]

text \<open>
  \<^verbatim>\<open>str.isdigit\<close> on one character: below U+0100 the digit characters are 0 .. 9 and the
  superscripts two, three and one (U+00B2, U+00B3, U+00B9). \<^verbatim>\<open>s.isdigit()\<close> holds when
  \<^verbatim>\<open>s\<close> is not empty and all its characters are digit characters.
\<close>

definition is_digit_char :: "char \<Rightarrow> bool" where
  "is_digit_char c \<longleftrightarrow> c \<in> set ''0123456789'' \<or> c \<in> set [CHR 0xB2, CHR 0xB3, CHR 0xB9]"

definition isdigit :: "string \<Rightarrow> bool" where
  "isdigit s \<longleftrightarrow> s \<noteq> [] \<and> list_all is_digit_char s"

text \<open>\<^verbatim>\<open>sep.join(xs)\<close>.\<close>

fun join :: "string \<Rightarrow> string list \<Rightarrow> string" where
  "join sep [] = []"
| "join sep [x] = x"
| "join sep (x # y # ys) = x @ sep @ join sep (y # ys)"

text \<open>\<^verbatim>\<open>sub in s\<close> on strings: \<^verbatim>\<open>sub\<close> occurs in \<^verbatim>\<open>s\<close> as a run of consecutive characters.\<close>

fun str_in :: "string \<Rightarrow> string \<Rightarrow> bool" where
  "str_in sub [] = (sub = [])"
| "str_in sub (c # cs) = (prefix sub (c # cs) \<or> str_in sub cs)"

text \<open>
  \<^verbatim>\<open>xs[i]\<close> for an index that is not negative raises \<^verbatim>\<open>IndexError\<close> out of range.
\<close>

datatype error = IndexError

definition index :: "'a list \<Rightarrow> nat \<Rightarrow> error + 'a" where
  "index xs i = (if i < length xs then Inr (xs ! i) else Inl IndexError)"

subsection \<open>The tables and the object\<close>

definition JOB_KEYWORDS :: "(string \<times> string) list" where
  "JOB_KEYWORDS =
     [(''Single Point (SP)'', ''SP''),
      (''Geometry Optimization (OPT)'', ''Opt''),
      (''Vibrational Frequency (FREQ)'', ''Freq''),
      (''OPT + FREQ'', ''Opt Freq''),
      (''Excited States (TD-DFT)'', ''TDDFT''),
      (''Scan'', ''Opt Scan''),
      (''Transition State (TS)'', ''OptTS''),
      (''Solvation'', ''Opt CPCM''),
      (''Molecular Mechanics (MM)'', ''MM''),
      (''QM/MM'', ''QMMM'')]"

text \<open>\<^verbatim>\<open>JOB_KEYWORDS.get(k, '')\<close>\<close>

definition JOB_KEYWORDS_get :: "string \<Rightarrow> string" where
  "JOB_KEYWORDS_get k = (case map_of JOB_KEYWORDS k of None \<Rightarrow> [] | Some v \<Rightarrow> v)"

text \<open>
  The fields of the object that the three methods read. A \<^verbatim>\<open>StringVar\<close> holds a string,
  an \<^verbatim>\<open>IntVar\<close> an integer (a check button stores 0 or 1; the code tests it for truth,
  that is, for being different from 0). \<open>method_name\<close> is \<^verbatim>\<open>self.method\<close>.
  \<open>coords_text\<close> and \<open>cb_text\<close> stand for what
  \<^verbatim>\<open>self.coords_text.get('1.0', tk.END)\<close> and \<^verbatim>\<open>self.cb_text.get('1.0', tk.END)\<close> return.
\<close>

record builder =
  job_type :: string
  method_name :: string
  basis :: string
  charge :: string
  mult :: string
  custom_keywords :: string
  solvent :: string
  tightscf :: int
  d3bj :: int
  rij :: int
  grid5 :: int
  cpcm :: int
  verytightscf :: int
  slowconv :: int
  defgrid3 :: int
  defgridx :: int
  maxcore :: string
  nprocs :: string
  auto_format_coords :: int
  coords_text :: string
  cb_text :: string

subsection \<open>\<^verbatim>\<open>build_keywords\<close>\<close>

definition extras_vars :: "builder \<Rightarrow> (int \<times> string) list" where
  "extras_vars b =
     [(tightscf b, ''TightSCF''), (d3bj b, ''D3BJ''), (rij b, ''RIJCOSX''),
      (grid5 b, ''Grid5''), (cpcm b, ''CPCM''), (verytightscf b, ''VeryTightSCF''),
      (slowconv b, ''SlowConv''), (defgrid3 b, ''DefGrid3''), (defgridx b, ''DefGridX'')]"

text \<open>
  \<open>parts\<close> starts as the job keyword; the loop appends the label of every variable that
  is true; the stripped custom keywords follow when they are not empty. The result joins
  the parts that are not empty with a space and strips the whole.
\<close>

definition build_keywords_parts :: "builder \<Rightarrow> string list" where
  "build_keywords_parts b =
     [JOB_KEYWORDS_get (job_type b)]
     @ map snd (filter (\<lambda>(var, label). var \<noteq> 0) (extras_vars b))
     @ (if strip (custom_keywords b) \<noteq> [] then [strip (custom_keywords b)] else [])"

definition build_keywords :: "builder \<Rightarrow> string" where
  "build_keywords b = strip (join '' '' (filter (\<lambda>p. p \<noteq> []) (build_keywords_parts b)))"

subsection \<open>\<^verbatim>\<open>format_coords\<close>\<close>

text \<open>
  \<^verbatim>\<open>len(lines) > 1 and lines[0].strip().isdigit()\<close>: the right operand is evaluated
  only when the left one holds; \<^verbatim>\<open>lines[0]\<close> is the one place of the three methods that
  could raise.
\<close>

definition has_count_line :: "string list \<Rightarrow> error + bool" where
  "has_count_line lines =
     (if length lines > 1
      then (case index lines 0 of Inl e \<Rightarrow> Inl e | Inr l \<Rightarrow> Inr (isdigit (strip l)))
      else Inr False)"

definition format_coords :: "string \<Rightarrow> error + string" where
  "format_coords text0 =
     (let text = strip text0 in
      if text = [] then Inr []
      else let lines = splitlines text in
        (case has_count_line lines of
           Inl e \<Rightarrow> Inl e
         | Inr c \<Rightarrow> if c then Inr (strip (join [CHR 0x0A] (drop 2 lines))) else Inr text))"

subsection \<open>\<^verbatim>\<open>build_input\<close>\<close>

text \<open>One definition for each local variable of the method, named after it.\<close>

definition header :: "builder \<Rightarrow> string" where
  "header b =
     (let h = ''! '' @ strip (method_name b) @ '' '' @ strip (basis b);
          extra_kw = build_keywords b;
          h = (if extra_kw \<noteq> [] then h @ '' '' @ extra_kw else h)
      in h @ [CHR 0x0A, CHR 0x0A])"

definition res_block :: "builder \<Rightarrow> string" where
  "res_block b =
     ''%maxcore '' @ maxcore b @ [CHR 0x0A] @ ''%pal nprocs '' @ nprocs b @ '' end''
     @ [CHR 0x0A, CHR 0x0A]"

definition cpcm_block :: "builder \<Rightarrow> string" where
  "cpcm_block b =
     (if str_in ''CPCM'' (build_keywords b) \<or> job_type b = ''Solvation'' \<or> cpcm b \<noteq> 0
      then (let sol = solvent b in
            ''%cpcm'' @ [CHR 0x0A] @ ''  smd true'' @ [CHR 0x0A]
            @ ''  SMDsolvent '' @ [CHR 0x22] @ sol @ [CHR 0x22] @ [CHR 0x0A]
            @ ''end'' @ [CHR 0x0A, CHR 0x0A])
      else [])"

definition coords :: "builder \<Rightarrow> error + string" where
  "coords b =
     (if auto_format_coords b \<noteq> 0 then format_coords (coords_text b)
      else Inr (strip (coords_text b)))"

definition xyz_block :: "builder \<Rightarrow> string \<Rightarrow> string" where
  "xyz_block b cs =
     (if cs \<noteq> []
      then ''* xyz '' @ charge b @ '' '' @ mult b @ [CHR 0x0A] @ cs @ [CHR 0x0A]
           @ ''*'' @ [CHR 0x0A]
      else [])"

definition custom_block_text :: "builder \<Rightarrow> string" where
  "custom_block_text b =
     (let t = strip (cb_text b) in if t \<noteq> [] then t @ [CHR 0x0A, CHR 0x0A] else t)"

definition build_input :: "builder \<Rightarrow> error + string" where
  "build_input b =
     (case coords b of
        Inl e \<Rightarrow> Inl e
      | Inr cs \<Rightarrow>
          Inr (header b @ res_block b @ cpcm_block b @ custom_block_text b @ xyz_block b cs))"

subsection \<open>Notions used in the statements and proofs\<close>

text \<open>Stripping on the right only: \<open>strip\<close> is \<open>rstrip\<close> after \<open>dropWhile isspace\<close>.\<close>

definition rstrip :: "string \<Rightarrow> string" where
  "rstrip s = rev (dropWhile isspace (rev s))"

text \<open>
  The object as \<^verbatim>\<open>__init__\<close> leaves it; the two text widgets are empty, and reading an
  empty Tk text widget up to \<^verbatim>\<open>tk.END\<close> gives one newline.
\<close>

definition init_builder :: builder where
  "init_builder =
     \<lparr>job_type = ''Single Point (SP)'', method_name = ''B3LYP'', basis = ''def2-SVP'',
      charge = ''0'', mult = ''1'', custom_keywords = [], solvent = ''Water'',
      tightscf = 1, d3bj = 0, rij = 0, grid5 = 0, cpcm = 0, verytightscf = 0,
      slowconv = 0, defgrid3 = 0, defgridx = 0, maxcore = ''2000'', nprocs = ''4'',
      auto_format_coords = 1, coords_text = ''\<newline>'', cb_text = ''\<newline>''\<rparr>"

text \<open>
  The header tokens of claim C2, by kind: the label of each flag that is set, in the
  order TightSCF, D3BJ, RIJCOSX, Grid5, CPCM, VeryTightSCF, SlowConv, DefGrid3, DefGridX;
  the job keyword when the table gives one; the stripped custom keywords when they are
  not empty.
\<close>

definition flag_tokens :: "builder \<Rightarrow> string list" where
  "flag_tokens b =
     (if tightscf b \<noteq> 0 then [''TightSCF''] else [])
     @ (if d3bj b \<noteq> 0 then [''D3BJ''] else [])
     @ (if rij b \<noteq> 0 then [''RIJCOSX''] else [])
     @ (if grid5 b \<noteq> 0 then [''Grid5''] else [])
     @ (if cpcm b \<noteq> 0 then [''CPCM''] else [])
     @ (if verytightscf b \<noteq> 0 then [''VeryTightSCF''] else [])
     @ (if slowconv b \<noteq> 0 then [''SlowConv''] else [])
     @ (if defgrid3 b \<noteq> 0 then [''DefGrid3''] else [])
     @ (if defgridx b \<noteq> 0 then [''DefGridX''] else [])"

definition job_tokens :: "builder \<Rightarrow> string list" where
  "job_tokens b =
     (if JOB_KEYWORDS_get (job_type b) \<noteq> [] then [JOB_KEYWORDS_get (job_type b)] else [])"

definition custom_tokens :: "builder \<Rightarrow> string list" where
  "custom_tokens b =
     (if strip (custom_keywords b) \<noteq> [] then [strip (custom_keywords b)] else [])"

text \<open>
  The header line as claim C2 words it: the marker, then the job keyword, the method, the
  basis, the flag tokens and the custom keywords, joined with single spaces and trimmed.
\<close>

definition claimed_header_line :: "builder \<Rightarrow> string" where
  "claimed_header_line b =
     ''! '' @ strip (join '' '' (job_tokens b @ [strip (method_name b), strip (basis b)]
                                 @ flag_tokens b @ custom_tokens b))"

text \<open>A token that \<open>strip\<close> leaves alone: not empty, no whitespace at either end.\<close>

definition clean_token :: "string \<Rightarrow> bool" where
  "clean_token t \<longleftrightarrow> t \<noteq> [] \<and> \<not> isspace (hd t) \<and> \<not> isspace (last t)"

text \<open>
  For the claims on coordinates: a line is a text with no line boundary in it; a blank
  text holds nothing but whitespace; a text "composed entirely of decimal digits" is not
  empty and made of the characters 0 to 9. The extended coordinate form is a count line,
  a comment line and the atom lines, each ended by a newline but the last.
\<close>

definition is_line :: "string \<Rightarrow> bool" where
  "is_line l \<longleftrightarrow> list_all (\<lambda>c. \<not> is_linebreak c) l"

definition blank :: "string \<Rightarrow> bool" where
  "blank s \<longleftrightarrow> list_all isspace s"

definition all_decimal :: "string \<Rightarrow> bool" where
  "all_decimal s \<longleftrightarrow> s \<noteq> [] \<and> list_all (\<lambda>c. c \<in> set ''0123456789'') s"

definition xyz_text :: "string \<Rightarrow> string \<Rightarrow> string list \<Rightarrow> string" where
  "xyz_text count comment atoms = join ''\<newline>'' (count # comment # atoms)"

section \<open>Facts about the string methods\<close>

subsection \<open>\<open>strip\<close>\<close>

lemma strip_rstrip: "strip s = rstrip (dropWhile isspace s)"
  by (simp add: strip_def rstrip_def)

lemma rstrip_Nil_iff: "rstrip s = [] \<longleftrightarrow> (\<forall>c\<in>set s. isspace c)"
  by (simp add: rstrip_def)

lemma strip_Nil_iff: "strip s = [] \<longleftrightarrow> (\<forall>c\<in>set s. isspace c)"
proof
  assume "strip s = []"
  then have a: "\<forall>c\<in>set (dropWhile isspace s). isspace c"
    by (simp add: strip_def)
  show "\<forall>c\<in>set s. isspace c"
  proof (rule ccontr)
    assume "\<not> (\<forall>c\<in>set s. isspace c)"
    then have "dropWhile isspace s \<noteq> []" by simp
    then have "\<not> isspace (hd (dropWhile isspace s))" by (rule hd_dropWhile)
    moreover have "hd (dropWhile isspace s) \<in> set (dropWhile isspace s)"
      using \<open>dropWhile isspace s \<noteq> []\<close> by simp
    ultimately show False using a by blast
  qed
next
  assume "\<forall>c\<in>set s. isspace c"
  then show "strip s = []" by (auto simp: strip_def dest: set_dropWhileD)
qed

lemma set_rstrip: "set (rstrip s) \<subseteq> set s"
  by (auto simp: rstrip_def dest: set_dropWhileD)

lemma set_strip: "set (strip s) \<subseteq> set s"
  by (auto simp: strip_def dest!: set_dropWhileD)

lemma rstrip_id: "s = [] \<or> \<not> isspace (last s) \<Longrightarrow> rstrip s = s"
  by (cases s rule: rev_cases) (auto simp: rstrip_def)

lemma rstrip_append_keep:
  assumes "\<exists>c\<in>set ys. \<not> isspace c"
  shows "rstrip (xs @ ys) = xs @ rstrip ys"
  using assms by (auto simp: rstrip_def)

lemma rstrip_append_drop:
  assumes "\<forall>c\<in>set ys. isspace c"
  shows "rstrip (xs @ ys) = rstrip xs"
  using assms by (simp add: rstrip_def dropWhile_append)

lemma last_rstrip: "rstrip s \<noteq> [] \<Longrightarrow> \<not> isspace (last (rstrip s))"
  using hd_dropWhile [of isspace "rev s"] by (simp add: rstrip_def last_rev)

lemma hd_rstrip: "rstrip s \<noteq> [] \<Longrightarrow> hd (rstrip s) = hd s"
proof -
  assume a: "rstrip s \<noteq> []"
  have "\<exists>r. s = rstrip s @ r"
    unfolding rstrip_def
    by (metis rev_append rev_rev_ident takeWhile_dropWhile_id)
  then obtain r where "s = rstrip s @ r" ..
  then have "hd s = hd (rstrip s @ r)" by simp
  with a show ?thesis by simp
qed

lemma strip_hd: "strip s \<noteq> [] \<Longrightarrow> \<not> isspace (hd (strip s))"
proof -
  assume a: "strip s \<noteq> []"
  then have "\<exists>c\<in>set s. \<not> isspace c" by (simp add: strip_Nil_iff)
  then have "dropWhile isspace s \<noteq> []" by simp
  then have "\<not> isspace (hd (dropWhile isspace s))" by (rule hd_dropWhile)
  moreover have "hd (strip s) = hd (dropWhile isspace s)"
    using a by (simp add: strip_rstrip hd_rstrip)
  ultimately show ?thesis by simp
qed

lemma strip_last: "strip s \<noteq> [] \<Longrightarrow> \<not> isspace (last (strip s))"
  by (simp add: strip_rstrip last_rstrip)

lemma strip_id: "s \<noteq> [] \<Longrightarrow> \<not> isspace (hd s) \<Longrightarrow> \<not> isspace (last s) \<Longrightarrow> strip s = s"
  by (simp add: strip_rstrip dropWhile_eq_self_iff [THEN iffD2] rstrip_id)

lemma strip_idem: "strip (strip s) = strip s"
proof (cases "strip s = []")
  case True
  moreover have "strip [] = []" by (simp add: strip_def)
  ultimately show ?thesis by simp
next
  case False
  then show ?thesis by (simp add: strip_id strip_hd strip_last)
qed

lemma strip_append_both:
  assumes "\<exists>c\<in>set xs. \<not> isspace c" and "\<exists>c\<in>set ys. \<not> isspace c"
  shows "strip (xs @ ys) = dropWhile isspace xs @ rstrip ys"
proof -
  from assms(1) obtain c where "c \<in> set xs" "\<not> isspace c" by blast
  then have "dropWhile isspace (xs @ ys) = dropWhile isspace xs @ ys" by simp
  then show ?thesis using assms(2) by (simp add: strip_rstrip rstrip_append_keep)
qed

lemma strip_append_blank:
  assumes "\<exists>c\<in>set xs. \<not> isspace c" and "\<forall>c\<in>set ys. isspace c"
  shows "strip (xs @ ys) = strip xs"
proof -
  from assms(1) obtain c where "c \<in> set xs" "\<not> isspace c" by blast
  then have "dropWhile isspace (xs @ ys) = dropWhile isspace xs @ ys" by simp
  then show ?thesis using assms(2) by (simp add: strip_rstrip rstrip_append_drop)
qed

lemma strip_rstrip_absorb: "strip (rstrip s) = strip s"
proof -
  have "rstrip (rstrip t) = rstrip t" for t
    by (cases "rstrip t = []") (simp_all add: rstrip_def rstrip_id last_rstrip[unfolded rstrip_def])
  moreover have "dropWhile isspace (rstrip s) = rstrip (dropWhile isspace s)"
  proof (cases "\<forall>c\<in>set s. isspace c")
    case True
    then have a: "rstrip s = []" and b: "dropWhile isspace s = []"
      by (simp_all add: rstrip_Nil_iff)
    show ?thesis unfolding a b by (simp add: rstrip_def)
  next
    case False
    then have dne: "dropWhile isspace s \<noteq> []" by simp
    then have nh: "\<not> isspace (hd (dropWhile isspace s))" by (rule hd_dropWhile)
    have ne: "\<exists>c\<in>set (dropWhile isspace s). \<not> isspace c"
      using dne nh hd_in_set by blast
    have "rstrip (takeWhile isspace s @ dropWhile isspace s)
          = takeWhile isspace s @ rstrip (dropWhile isspace s)"
      using ne by (rule rstrip_append_keep)
    then have r: "rstrip s = takeWhile isspace s @ rstrip (dropWhile isspace s)" by simp
    have rne: "rstrip (dropWhile isspace s) \<noteq> []"
      using ne by (simp add: rstrip_Nil_iff)
    then have "hd (rstrip (dropWhile isspace s)) = hd (dropWhile isspace s)"
      by (rule hd_rstrip)
    with nh have "\<not> isspace (hd (rstrip (dropWhile isspace s)))" by simp
    with rne have "dropWhile isspace (rstrip (dropWhile isspace s)) = rstrip (dropWhile isspace s)"
      by (simp add: dropWhile_eq_self_iff)
    moreover have "dropWhile isspace (takeWhile isspace s @ rstrip (dropWhile isspace s))
       = dropWhile isspace (rstrip (dropWhile isspace s))"
      by (rule dropWhile_append2) (auto dest: set_takeWhileD)
    ultimately show ?thesis using r by simp
  qed
  ultimately show ?thesis by (simp add: strip_rstrip)
qed

subsection \<open>\<open>format_coords\<close> on blank text\<close>

lemma format_coords_blank: "\<forall>c\<in>set t. isspace c \<Longrightarrow> format_coords t = Inr []"
  by (simp add: format_coords_def strip_Nil_iff [THEN iffD2])

subsection \<open>\<open>join\<close>, \<open>str_in\<close> and the keywords\<close>

lemma str_in_sublist: "str_in sub s \<longleftrightarrow> sublist sub s"
  by (induction s) (simp_all add: sublist_Cons_right)

lemma join_Cons: "ts \<noteq> [] \<Longrightarrow> join sep (t # ts) = t @ sep @ join sep ts"
  by (cases ts) simp_all

lemma join_append:
  "xs \<noteq> [] \<Longrightarrow> ys \<noteq> [] \<Longrightarrow> join sep (xs @ ys) = join sep xs @ sep @ join sep ys"
  by (induction sep xs rule: join.induct) (simp_all add: join_Cons)

lemma set_join: "set (join sep ts) \<subseteq> set sep \<union> \<Union> (set ` set ts)"
  by (induction sep ts rule: join.induct) auto

lemma sublist_join: "t \<in> set ts \<Longrightarrow> sublist t (join sep ts)"
proof (induction sep ts rule: join.induct)
  case (3 sep x y ys)
  show ?case
  proof (cases "t = x")
    case True
    then show ?thesis by simp
  next
    case False
    with 3 have "sublist t (join sep (y # ys))" by simp
    then obtain ps ss where "join sep (y # ys) = ps @ t @ ss"
      by (auto simp: sublist_def)
    then have "join sep (x # y # ys) = (x @ sep @ ps) @ t @ ss" by simp
    then show ?thesis unfolding sublist_def by blast
  qed
qed simp_all

lemma join_clean:
  assumes "ts \<noteq> []" and "\<forall>t\<in>set ts. clean_token t"
  shows "clean_token (join sep ts)"
  using assms
proof (induction sep ts rule: join.induct)
  case (3 sep x y ys)
  then have "clean_token (join sep (y # ys))" by simp
  moreover have "clean_token x" using 3 by simp
  ultimately show ?case by (simp add: clean_token_def)
qed simp_all

lemma strip_clean: "clean_token t \<Longrightarrow> strip t = t"
  by (simp add: clean_token_def strip_id)

lemma clean_strip: "strip s \<noteq> [] \<Longrightarrow> clean_token (strip s)"
  by (simp add: clean_token_def strip_hd strip_last)

lemma join_spaces: "concat (map (\<lambda>t. sep @ t) ts) = (if ts = [] then [] else sep @ join sep ts)"
  by (induction sep ts rule: join.induct) simp_all

lemma JOB_KEYWORDS_get_cases:
  "JOB_KEYWORDS_get k \<in> set [[], ''SP'', ''Opt'', ''Freq'', ''Opt Freq'', ''TDDFT'', ''Opt Scan'',
      ''OptTS'', ''Opt CPCM'', ''MM'', ''QMMM'']"
  by (simp add: JOB_KEYWORDS_get_def JOB_KEYWORDS_def)

lemma job_tokens_clean: "\<forall>t\<in>set (job_tokens b). clean_token t"
  using JOB_KEYWORDS_get_cases [of "job_type b"]
  by (auto simp: job_tokens_def clean_token_def isspace_def)

lemma flag_tokens_clean: "\<forall>t\<in>set (flag_tokens b). clean_token t"
  by (auto simp: flag_tokens_def clean_token_def isspace_def split: if_splits)

lemma custom_tokens_clean: "\<forall>t\<in>set (custom_tokens b). clean_token t"
  by (simp add: custom_tokens_def clean_strip)

lemma extras_flag_tokens:
  "map snd (filter (\<lambda>(var, label). var \<noteq> 0) (extras_vars b)) = flag_tokens b"
  by (simp add: extras_vars_def flag_tokens_def)

lemma filter_clean: "\<forall>t\<in>set ts. clean_token t \<Longrightarrow> filter (\<lambda>p. p \<noteq> []) ts = ts"
  by (induction ts) (auto simp: clean_token_def)

lemma parts_tokens:
  "filter (\<lambda>p. p \<noteq> []) (build_keywords_parts b) = job_tokens b @ flag_tokens b @ custom_tokens b"
proof -
  have "filter (\<lambda>p. p \<noteq> []) [JOB_KEYWORDS_get (job_type b)] = job_tokens b"
    by (simp add: job_tokens_def)
  moreover have "filter (\<lambda>p. p \<noteq> []) (flag_tokens b) = flag_tokens b"
    by (rule filter_clean) (rule flag_tokens_clean)
  moreover have "filter (\<lambda>p. p \<noteq> []) (custom_tokens b) = custom_tokens b"
    by (rule filter_clean) (rule custom_tokens_clean)
  moreover have "build_keywords_parts b
      = [JOB_KEYWORDS_get (job_type b)] @ flag_tokens b @ custom_tokens b"
    by (simp only: build_keywords_parts_def extras_flag_tokens custom_tokens_def)
  ultimately show ?thesis by (simp only: filter_append)
qed

lemma build_keywords_join:
  "build_keywords b = join '' '' (job_tokens b @ flag_tokens b @ custom_tokens b)"
proof (cases "job_tokens b @ flag_tokens b @ custom_tokens b = []")
  case True
  then show ?thesis by (simp add: build_keywords_def parts_tokens strip_def)
next
  case False
  have "\<forall>t\<in>set (job_tokens b @ flag_tokens b @ custom_tokens b). clean_token t"
    using job_tokens_clean flag_tokens_clean custom_tokens_clean by auto
  with False have "clean_token (join '' '' (job_tokens b @ flag_tokens b @ custom_tokens b))"
    by (rule join_clean)
  then show ?thesis by (simp add: build_keywords_def parts_tokens strip_clean)
qed

lemma build_keywords_Nil:
  "build_keywords b = [] \<longleftrightarrow> job_tokens b @ flag_tokens b @ custom_tokens b = []"
proof (cases "job_tokens b @ flag_tokens b @ custom_tokens b = []")
  case True
  then show ?thesis by (simp add: build_keywords_join)
next
  case False
  have "\<forall>t\<in>set (job_tokens b @ flag_tokens b @ custom_tokens b). clean_token t"
    using job_tokens_clean flag_tokens_clean custom_tokens_clean by auto
  with False have "clean_token (join '' '' (job_tokens b @ flag_tokens b @ custom_tokens b))"
    by (rule join_clean)
  with False show ?thesis by (simp add: build_keywords_join clean_token_def)
qed

lemma header_tokens:
  "header b = ''! '' @ strip (method_name b) @ '' '' @ strip (basis b)
      @ concat (map (\<lambda>t. '' '' @ t) (job_tokens b @ flag_tokens b @ custom_tokens b))
      @ ''\<newline>\<newline>''"
proof (cases "job_tokens b @ flag_tokens b @ custom_tokens b = []")
  case True
  then have "build_keywords b = []" by (simp add: build_keywords_Nil)
  with True show ?thesis by (simp add: header_def)
next
  case False
  then have "build_keywords b \<noteq> []" by (simp add: build_keywords_Nil)
  then have "header b = ''! '' @ strip (method_name b) @ '' '' @ strip (basis b)
      @ ('' '' @ build_keywords b) @ ''\<newline>\<newline>''"
    by (simp add: header_def Let_def)
  moreover have "concat (map (\<lambda>t. '' '' @ t) (job_tokens b @ flag_tokens b @ custom_tokens b))
      = '' '' @ build_keywords b"
    using False by (simp only: join_spaces build_keywords_join if_False)
  ultimately show ?thesis by (simp only:)
qed

subsection \<open>No error; substrings of the keywords\<close>

lemma has_count_line_eq:
  "has_count_line ls = Inr (1 < length ls \<and> isdigit (strip (ls ! 0)))"
  by (simp add: has_count_line_def index_def)

lemma format_coords_eq:
  "format_coords t =
     Inr (if strip t = [] then []
          else if 1 < length (splitlines (strip t)) \<and> isdigit (strip (splitlines (strip t) ! 0))
               then strip (join ''\<newline>'' (drop 2 (splitlines (strip t))))
               else strip t)"
  by (simp add: format_coords_def has_count_line_eq Let_def)

lemma coords_total: "\<exists>cs. coords b = Inr cs"
  by (simp add: coords_def format_coords_eq)

lemma build_input_segments:
  "\<exists>cs. coords b = Inr cs \<and>
     build_input b
       = Inr (header b @ res_block b @ cpcm_block b @ custom_block_text b @ xyz_block b cs)"
proof -
  obtain cs where "coords b = Inr cs" using coords_total by blast
  then show ?thesis by (simp add: build_input_def)
qed

lemma sublist_dropWhile:
  assumes "sub \<noteq> []" and "\<not> P (hd sub)" and "sublist sub s"
  shows "sublist sub (dropWhile P s)"
proof -
  from assms(3) obtain ps ss where s: "s = ps @ sub @ ss" by (auto simp: sublist_def)
  have "sublist sub (dropWhile P (ps @ sub @ ss))"
  proof (induction ps)
    case Nil
    from assms(1,2) have "dropWhile P (sub @ ss) = sub @ ss"
      by (cases sub) simp_all
    then show ?case by simp
  next
    case (Cons p ps)
    show ?case
    proof (cases "P p")
      case True
      with Cons show ?thesis by simp
    next
      case False
      have "sublist sub ((p # ps) @ sub @ ss)" by (rule sublist_appendI)
      with False show ?thesis by simp
    qed
  qed
  with s show ?thesis by simp
qed

lemma sublist_strip:
  assumes "clean_token sub" and "sublist sub s"
  shows "sublist sub (strip s)"
proof -
  from assms have a: "sublist sub (dropWhile isspace s)"
    by (simp add: clean_token_def sublist_dropWhile)
  have "rev sub \<noteq> []" "\<not> isspace (hd (rev sub))"
    using assms(1) by (simp_all add: clean_token_def hd_rev)
  moreover have "sublist (rev sub) (rev (dropWhile isspace s))" using a by simp
  ultimately have "sublist (rev sub) (dropWhile isspace (rev (dropWhile isspace s)))"
    by (rule sublist_dropWhile)
  then have "sublist (rev (rev sub)) (rev (dropWhile isspace (rev (dropWhile isspace s))))"
    by (simp only: sublist_rev)
  then show ?thesis by (simp add: strip_def)
qed

lemma sublist_build_keywords:
  assumes "t \<in> set (job_tokens b @ flag_tokens b @ custom_tokens b)" and "sublist sub t"
  shows "sublist sub (build_keywords b)"
proof -
  have "sublist t (build_keywords b)"
    using assms(1) unfolding build_keywords_join by (rule sublist_join)
  with assms(2) show ?thesis by (rule sublist_order.order.trans)
qed

lemma CPCM_clean: "clean_token ''CPCM''"
  by (simp add: clean_token_def isspace_def)

lemma cpcm_flag_keyword: "cpcm b \<noteq> 0 \<Longrightarrow> str_in ''CPCM'' (build_keywords b)"
proof -
  assume "cpcm b \<noteq> 0"
  then have "''CPCM'' \<in> set (job_tokens b @ flag_tokens b @ custom_tokens b)"
    by (simp add: flag_tokens_def)
  then have "sublist ''CPCM'' (build_keywords b)"
    by (rule sublist_build_keywords) simp
  then show ?thesis by (simp add: str_in_sublist)
qed

lemma custom_keyword_CPCM:
  assumes "str_in ''CPCM'' (custom_keywords b)"
  shows "str_in ''CPCM'' (build_keywords b)"
proof -
  from assms have s: "sublist ''CPCM'' (strip (custom_keywords b))"
    by (simp add: str_in_sublist sublist_strip CPCM_clean)
  then have "strip (custom_keywords b) \<noteq> []" by auto
  then have "strip (custom_keywords b) \<in> set (job_tokens b @ flag_tokens b @ custom_tokens b)"
    by (simp add: custom_tokens_def)
  then have "sublist ''CPCM'' (build_keywords b)"
    using s by (rule sublist_build_keywords)
  then show ?thesis by (simp add: str_in_sublist)
qed

lemma job_keyword_CPCM:
  assumes "str_in ''CPCM'' (JOB_KEYWORDS_get (job_type b))"
  shows "str_in ''CPCM'' (build_keywords b)"
proof -
  from assms have s: "sublist ''CPCM'' (JOB_KEYWORDS_get (job_type b))"
    by (simp add: str_in_sublist)
  then have "JOB_KEYWORDS_get (job_type b) \<noteq> []" by auto
  then have "JOB_KEYWORDS_get (job_type b) \<in> set (job_tokens b @ flag_tokens b @ custom_tokens b)"
    by (simp add: job_tokens_def)
  then have "sublist ''CPCM'' (build_keywords b)"
    using s by (rule sublist_build_keywords)
  then show ?thesis by (simp add: str_in_sublist)
qed

lemma Solvation_keyword: "JOB_KEYWORDS_get ''Solvation'' = ''Opt CPCM''"
  by (simp add: JOB_KEYWORDS_get_def JOB_KEYWORDS_def)

subsection \<open>\<open>splitlines\<close>\<close>

lemma linebreak_isspace: "is_linebreak c \<Longrightarrow> isspace c"
  by (auto simp: is_linebreak_def isspace_def)

lemma NL_linebreak: "is_linebreak (CHR 0x0A)"
  by (simp add: is_linebreak_def)

lemma NL_isspace: "isspace (CHR 0x0A)"
  by (simp add: isspace_def)

lemma splitlines_Nil: "splitlines [] = []"
  by (simp add: splitlines.simps)

lemma splitlines_eq_Nil: "splitlines s = [] \<longleftrightarrow> s = []"
  by (subst splitlines.simps) simp

lemma splitlines_line:
  assumes "is_line l" and "l \<noteq> []"
  shows "splitlines l = [l]"
proof -
  have t: "takeWhile (\<lambda>c. \<not> is_linebreak c) l = l"
    using assms(1) by (simp add: is_line_def list_all_iff)
  have d: "dropWhile (\<lambda>c. \<not> is_linebreak c) l = []"
    using assms(1) by (simp add: is_line_def list_all_iff)
  show ?thesis
    by (subst splitlines.simps) (simp add: t d assms(2))
qed

lemma splitlines_line_NL:
  assumes "is_line l"
  shows "splitlines (l @ CHR 0x0A # rest) = l # splitlines rest"
proof -
  have t: "takeWhile (\<lambda>c. \<not> is_linebreak c) (l @ CHR 0x0A # rest) = l"
    using assms by (simp add: is_line_def list_all_iff NL_linebreak)
  have d: "dropWhile (\<lambda>c. \<not> is_linebreak c) (l @ CHR 0x0A # rest) = CHR 0x0A # rest"
    using assms by (simp add: is_line_def list_all_iff NL_linebreak)
  show ?thesis
    by (subst splitlines.simps) (simp add: t d)
qed

lemma splitlines_hd:
  "s \<noteq> [] \<Longrightarrow> splitlines s ! 0 = takeWhile (\<lambda>c. \<not> is_linebreak c) s"
  by (subst splitlines.simps) simp

lemma splitlines_length_line: "is_line s \<Longrightarrow> length (splitlines s) \<le> 1"
  by (cases "s = []") (simp_all add: splitlines_Nil splitlines_line)

lemma join_splitlines:
  assumes "\<forall>c\<in>set s. is_linebreak c \<longrightarrow> c = CHR 0x0A"
    and "s = [] \<or> last s \<noteq> CHR 0x0A"
  shows "join ''\<newline>'' (splitlines s) = s"
  using assms
proof (induction s rule: length_induct)
  case (1 s)
  show ?case
  proof (cases "s = []")
    case True
    then show ?thesis by (simp add: splitlines_Nil)
  next
    case False
    let ?l = "takeWhile (\<lambda>c. \<not> is_linebreak c) s"
    let ?r = "dropWhile (\<lambda>c. \<not> is_linebreak c) s"
    have ll: "is_line ?l"
      by (auto simp: is_line_def list_all_iff dest: set_takeWhileD)
    show ?thesis
    proof (cases ?r)
      case Nil
      then have "is_line s" by (simp add: is_line_def list_all_iff)
      with False show ?thesis by (simp add: splitlines_line)
    next
      case (Cons c cs)
      then have "is_linebreak c" using hd_dropWhile [of "\<lambda>c. \<not> is_linebreak c" s] by auto
      moreover have "c \<in> set s"
        using Cons set_dropWhileD [of c "\<lambda>c. \<not> is_linebreak c" s] by simp
      ultimately have c: "c = CHR 0x0A" using "1.prems"(1) by blast
      have s: "s = ?l @ CHR 0x0A # cs"
        using Cons c takeWhile_dropWhile_id [of "\<lambda>c. \<not> is_linebreak c" s] by simp
      have cs_ne: "cs \<noteq> []"
      proof
        assume "cs = []"
        with s have "last s = CHR 0x0A" by (metis last_snoc)
        with "1.prems"(2) False show False by simp
      qed
      have "length cs < length s" using s by (metis length_append length_Cons less_add_Suc2 add_Suc_right)
      moreover have "\<forall>c\<in>set cs. is_linebreak c \<longrightarrow> c = CHR 0x0A"
        using "1.prems"(1) s by (metis Un_iff list.set_intros(2) set_append)
      moreover have "last cs \<noteq> CHR 0x0A"
        using "1.prems"(2) False s cs_ne by (metis last_appendR last_ConsR list.distinct(1))
      ultimately have ih: "join ''\<newline>'' (splitlines cs) = cs"
        using "1.IH" by blast
      have "splitlines s = ?l # splitlines cs"
        using splitlines_line_NL [OF ll, of cs] s by simp
      moreover have "splitlines cs \<noteq> []" using cs_ne by (simp add: splitlines_eq_Nil)
      ultimately have "join ''\<newline>'' (splitlines s) = ?l @ ''\<newline>'' @ join ''\<newline>'' (splitlines cs)"
        by (simp add: join_Cons)
      with ih s show ?thesis by simp
    qed
  qed
qed

lemma blank_strip: "blank s \<longleftrightarrow> strip s = []"
  by (simp add: blank_def list_all_iff strip_Nil_iff)

lemma blank_join: "blank (join ''\<newline>'' ts) \<longleftrightarrow> (\<forall>t\<in>set ts. blank t)"
  by (induction "''\<newline>''" ts rule: join.induct) (auto simp: blank_def NL_isspace)

lemma is_line_join:
  "\<forall>t\<in>set ts. is_line t \<Longrightarrow> \<forall>c\<in>set (join ''\<newline>'' ts). is_linebreak c \<longrightarrow> c = CHR 0x0A"
  by (induction "''\<newline>''" ts rule: join.induct) (auto simp: is_line_def list_all_iff)

subsection \<open>The extended coordinate form\<close>

lemma all_decimal_isdigit: "all_decimal s \<Longrightarrow> isdigit s"
  by (auto simp: all_decimal_def isdigit_def is_digit_char_def list_all_iff)

lemma not_blank_ex: "\<not> blank s \<longleftrightarrow> (\<exists>c\<in>set s. \<not> isspace c)"
  by (simp add: blank_def list_all_iff)

lemma is_line_dropWhile: "is_line l \<Longrightarrow> is_line (dropWhile P l)"
  by (auto simp: is_line_def list_all_iff dest: set_dropWhileD)

lemma is_line_rstrip: "is_line l \<Longrightarrow> is_line (rstrip l)"
  using set_rstrip [of l] by (auto simp: is_line_def list_all_iff)

lemma strip_dropWhile: "strip (dropWhile isspace s) = strip s"
  by (simp add: strip_def)

text \<open>The trimmed extended form when something follows the count line.\<close>

lemma strip_xyz_text:
  assumes "\<not> blank count" and "\<not> blank (join ''\<newline>'' (comment # atoms))"
  shows "strip (xyz_text count comment atoms)
     = dropWhile isspace count @ CHR 0x0A # rstrip (join ''\<newline>'' (comment # atoms))"
proof -
  let ?R = "join ''\<newline>'' (comment # atoms)"
  have x: "xyz_text count comment atoms = count @ (CHR 0x0A # ?R)"
    by (simp add: xyz_text_def)
  have r: "\<exists>c\<in>set ?R. \<not> isspace c" using assms(2) by (simp add: not_blank_ex)
  then have "\<exists>c\<in>set (CHR 0x0A # ?R). \<not> isspace c" by auto
  moreover have "\<exists>c\<in>set count. \<not> isspace c" using assms(1) by (simp add: not_blank_ex)
  ultimately have "strip (count @ (CHR 0x0A # ?R)) = dropWhile isspace count @ rstrip (CHR 0x0A # ?R)"
    by (intro strip_append_both)
  moreover have "rstrip ([CHR 0x0A] @ ?R) = [CHR 0x0A] @ rstrip ?R"
    using r by (rule rstrip_append_keep)
  ultimately show ?thesis using x by simp
qed

text \<open>The trimmed extended form when only blank text follows the count line.\<close>

lemma strip_xyz_text_blank:
  assumes "\<not> blank count" and "blank (join ''\<newline>'' (comment # atoms))"
  shows "strip (xyz_text count comment atoms) = strip count"
proof -
  let ?R = "join ''\<newline>'' (comment # atoms)"
  have x: "xyz_text count comment atoms = count @ (CHR 0x0A # ?R)"
    by (simp add: xyz_text_def)
  have "\<forall>c\<in>set (CHR 0x0A # ?R). isspace c"
    using assms(2) by (simp add: blank_def list_all_iff NL_isspace)
  moreover have "\<exists>c\<in>set count. \<not> isspace c" using assms(1) by (simp add: not_blank_ex)
  ultimately have "strip (count @ (CHR 0x0A # ?R)) = strip count"
    by (intro strip_append_blank)
  with x show ?thesis by simp
qed

text \<open>What is left of the comment and atom lines after the first line is dropped.\<close>

lemma rest_lines:
  assumes "is_line comment" and "\<forall>a\<in>set atoms. is_line a"
    and "\<not> blank (join ''\<newline>'' (comment # atoms))"
  shows "splitlines (rstrip (join ''\<newline>'' (comment # atoms))) \<noteq> []
    \<and> strip (join ''\<newline>'' (drop 1 (splitlines (rstrip (join ''\<newline>'' (comment # atoms))))))
      = strip (join ''\<newline>'' atoms)"
proof -
  let ?R = "join ''\<newline>'' (comment # atoms)"
  let ?JA = "join ''\<newline>'' atoms"
  have ne: "rstrip ?R \<noteq> []"
    using assms(3) by (simp add: rstrip_Nil_iff not_blank_ex)
  then have sp: "splitlines (rstrip ?R) \<noteq> []" by (simp add: splitlines_eq_Nil)
  show ?thesis
  proof (cases "blank ?JA")
    case True
    then have b: "\<forall>c\<in>set ?JA. isspace c" by (simp add: blank_def list_all_iff)
    have "rstrip ?R = rstrip comment"
    proof (cases "atoms = []")
      case True
      then show ?thesis by simp
    next
      case False
      then have "?R = comment @ (CHR 0x0A # ?JA)" by (simp add: join_Cons)
      moreover have "\<forall>c\<in>set (CHR 0x0A # ?JA). isspace c" using b by (simp add: NL_isspace)
      ultimately show ?thesis by (simp only: rstrip_append_drop)
    qed
    moreover have "is_line (rstrip comment)" using assms(1) by (rule is_line_rstrip)
    ultimately have "splitlines (rstrip ?R) = [rstrip comment]"
      using ne by (simp add: splitlines_line)
    then have "strip (join ''\<newline>'' (drop 1 (splitlines (rstrip ?R)))) = strip []" by simp
    moreover have "strip ?JA = []" using True by (simp add: blank_strip)
    moreover have "strip [] = []" by (simp add: strip_def)
    ultimately show ?thesis using sp by simp
  next
    case False
    then have nb: "\<exists>c\<in>set ?JA. \<not> isspace c" by (simp add: not_blank_ex)
    then have "atoms \<noteq> []" by auto
    then have R: "?R = (comment @ [CHR 0x0A]) @ ?JA" by (simp add: join_Cons)
    have "rstrip ((comment @ [CHR 0x0A]) @ ?JA) = (comment @ [CHR 0x0A]) @ rstrip ?JA"
      using nb by (rule rstrip_append_keep)
    with R have rr: "rstrip ?R = comment @ CHR 0x0A # rstrip ?JA" by simp
    have "splitlines (comment @ CHR 0x0A # rstrip ?JA) = comment # splitlines (rstrip ?JA)"
      using assms(1) by (rule splitlines_line_NL)
    with rr have d: "drop 1 (splitlines (rstrip ?R)) = splitlines (rstrip ?JA)" by simp
    have lf: "\<forall>c\<in>set (rstrip ?JA). is_linebreak c \<longrightarrow> c = CHR 0x0A"
      using is_line_join [OF assms(2)] set_rstrip [of ?JA] by blast
    have "rstrip ?JA \<noteq> []" using nb by (simp add: rstrip_Nil_iff)
    then have "\<not> isspace (last (rstrip ?JA))" by (rule last_rstrip)
    then have "last (rstrip ?JA) \<noteq> CHR 0x0A" using NL_isspace by auto
    with lf have "join ''\<newline>'' (splitlines (rstrip ?JA)) = rstrip ?JA"
      by (intro join_splitlines) simp_all
    with d have "strip (join ''\<newline>'' (drop 1 (splitlines (rstrip ?R)))) = strip (rstrip ?JA)"
      by simp
    then show ?thesis using sp by (simp add: strip_rstrip_absorb)
  qed
qed

lemma format_coords_xyz_text:
  assumes "isdigit (strip count)" and "is_line count" and "is_line comment"
    and "\<forall>a\<in>set atoms. is_line a"
    and "\<not> blank (join ''\<newline>'' (comment # atoms))"
  shows "format_coords (xyz_text count comment atoms) = Inr (strip (join ''\<newline>'' atoms))"
proof -
  let ?R = "join ''\<newline>'' (comment # atoms)"
  let ?c = "dropWhile isspace count"
  have nbc: "\<not> blank count" using assms(1) by (auto simp: blank_strip isdigit_def)
  have st: "strip (xyz_text count comment atoms) = ?c @ CHR 0x0A # rstrip ?R"
    using nbc assms(5) by (rule strip_xyz_text)
  have "is_line ?c" using assms(2) by (rule is_line_dropWhile)
  then have sl: "splitlines (?c @ CHR 0x0A # rstrip ?R) = ?c # splitlines (rstrip ?R)"
    by (rule splitlines_line_NL)
  from rest_lines [OF assms(3,4,5)]
  have ne: "splitlines (rstrip ?R) \<noteq> []"
    and rest: "strip (join ''\<newline>'' (drop 1 (splitlines (rstrip ?R)))) = strip (join ''\<newline>'' atoms)"
    by simp_all
  have len: "1 < length (?c # splitlines (rstrip ?R))" using ne by (cases "splitlines (rstrip ?R)") simp_all
  have dig: "isdigit (strip ((?c # splitlines (rstrip ?R)) ! 0))"
    using assms(1) by (simp add: strip_dropWhile)
  have d2: "drop 2 (?c # splitlines (rstrip ?R)) = drop 1 (splitlines (rstrip ?R))" by simp
  have nonempty: "strip (xyz_text count comment atoms) \<noteq> []" using st by simp
  show ?thesis
    unfolding format_coords_eq using nonempty len dig rest
    by (simp only: st sl d2 if_False if_True simp_thms)
qed

lemma blank_join_Cons:
  "blank (join ''\<newline>'' (comment # atoms)) \<longleftrightarrow> blank comment \<and> (\<forall>a\<in>set atoms. blank a)"
  by (simp add: blank_join)

subsection \<open>The segments of the document\<close>

lemma coords_blank: "blank (coords_text b) \<Longrightarrow> coords b = Inr []"
  by (simp add: coords_def format_coords_eq blank_strip)

lemma unknown_job_type:
  assumes "job_type b \<notin> fst ` set JOB_KEYWORDS"
  shows "JOB_KEYWORDS_get (job_type b) = []"
    and "build_input b = build_input (b\<lparr>job_type := []\<rparr>)"
proof -
  have n: "map_of JOB_KEYWORDS (job_type b) = None"
    using assms by (simp add: map_of_eq_None_iff)
  then show g: "JOB_KEYWORDS_get (job_type b) = []" by (simp add: JOB_KEYWORDS_get_def)
  have e: "JOB_KEYWORDS_get [] = []" by (simp add: JOB_KEYWORDS_get_def JOB_KEYWORDS_def)
  have s: "job_type b \<noteq> ''Solvation''" using assms by (auto simp: JOB_KEYWORDS_def)
  have k: "build_keywords (b\<lparr>job_type := []\<rparr>) = build_keywords b"
    by (simp add: build_keywords_def build_keywords_parts_def extras_vars_def g e)
  have "header (b\<lparr>job_type := []\<rparr>) = header b" by (simp add: header_def k)
  moreover have "res_block (b\<lparr>job_type := []\<rparr>) = res_block b" by (simp add: res_block_def)
  moreover have "cpcm_block (b\<lparr>job_type := []\<rparr>) = cpcm_block b"
    using s by (simp add: cpcm_block_def k)
  moreover have "custom_block_text (b\<lparr>job_type := []\<rparr>) = custom_block_text b"
    by (simp add: custom_block_text_def)
  moreover have "coords (b\<lparr>job_type := []\<rparr>) = coords b" by (simp add: coords_def)
  moreover have "xyz_block (b\<lparr>job_type := []\<rparr>) = xyz_block b"
    by (simp add: xyz_block_def fun_eq_iff)
  ultimately show "build_input b = build_input (b\<lparr>job_type := []\<rparr>)"
    by (simp add: build_input_def split: sum.splits)
qed

text \<open>The definitions that evaluate a document at a concrete object.\<close>

lemmas eval_defs = init_builder_def header_def res_block_def cpcm_block_def custom_block_text_def
  xyz_block_def coords_def format_coords_eq build_keywords_def build_keywords_parts_def
  extras_vars_def JOB_KEYWORDS_get_def JOB_KEYWORDS_def strip_def isspace_def

subsection \<open>The extended form, only trimmed\<close>

lemma rstrip_prefix: "prefix (rstrip s) s"
proof -
  have "s = rstrip s @ rev (takeWhile isspace (rev s))"
    unfolding rstrip_def by (metis rev_append rev_rev_ident takeWhile_dropWhile_id)
  then show ?thesis by (metis prefixI)
qed

lemma sublist_strip_self: "sublist (strip s) s"
proof -
  have "prefix (strip s) (dropWhile isspace s)"
    unfolding strip_rstrip by (rule rstrip_prefix)
  moreover have "suffix (dropWhile isspace s) s"
    by (rule suffix_dropWhile)
  ultimately show ?thesis by (auto simp: sublist_altdef')
qed

lemma sublist_strip_lstrip: "sublist (strip s) (dropWhile isspace s)"
  unfolding strip_rstrip using rstrip_prefix [of "dropWhile isspace s"] by (rule prefix_imp_sublist)

lemma sublist_strip_rstrip: "sublist (strip s) (rstrip s)"
  using sublist_strip_self [of "rstrip s"] by (simp add: strip_rstrip_absorb)

lemma rstrip_rest_blank:
  assumes "blank (join ''\<newline>'' atoms)"
  shows "rstrip (join ''\<newline>'' (comment # atoms)) = rstrip comment"
proof (cases "atoms = []")
  case True
  then show ?thesis by simp
next
  case False
  then have "join ''\<newline>'' (comment # atoms) = comment @ (CHR 0x0A # join ''\<newline>'' atoms)"
    by (simp add: join_Cons)
  moreover have "\<forall>c\<in>set (CHR 0x0A # join ''\<newline>'' atoms). isspace c"
    using assms by (simp add: blank_def list_all_iff NL_isspace)
  ultimately show ?thesis by (simp only: rstrip_append_drop)
qed

lemma rstrip_rest_atoms:
  assumes "\<not> blank (join ''\<newline>'' atoms)"
  shows "rstrip (join ''\<newline>'' (comment # atoms))
     = comment @ CHR 0x0A # rstrip (join ''\<newline>'' atoms)"
proof -
  have nb: "\<exists>c\<in>set (join ''\<newline>'' atoms). \<not> isspace c"
    using assms by (simp add: not_blank_ex)
  then have "atoms \<noteq> []" by auto
  then have R: "join ''\<newline>'' (comment # atoms) = (comment @ [CHR 0x0A]) @ join ''\<newline>'' atoms"
    by (simp add: join_Cons)
  have "rstrip ((comment @ [CHR 0x0A]) @ join ''\<newline>'' atoms)
      = (comment @ [CHR 0x0A]) @ rstrip (join ''\<newline>'' atoms)"
    using nb by (rule rstrip_append_keep)
  with R show ?thesis by simp
qed

text \<open>The trimmed extended form holds the trimmed count line and the trimmed comment line.\<close>

lemma strip_xyz_text_lines:
  assumes "\<not> blank count"
  shows "sublist (strip count) (strip (xyz_text count comment atoms))"
    and "sublist (strip comment) (strip (xyz_text count comment atoms))"
proof -
  let ?R = "join ''\<newline>'' (comment # atoms)"
  let ?T = "strip (xyz_text count comment atoms)"
  show "sublist (strip count) ?T"
  proof (cases "blank ?R")
    case True
    with assms have "?T = strip count" by (rule strip_xyz_text_blank)
    then show ?thesis by simp
  next
    case False
    with assms have "?T = dropWhile isspace count @ CHR 0x0A # rstrip ?R"
      by (rule strip_xyz_text)
    moreover have "sublist (strip count) (dropWhile isspace count @ CHR 0x0A # rstrip ?R)"
      using sublist_strip_lstrip [of count] by (metis sublist_append_rightI sublist_order.order.trans)
    ultimately show ?thesis by simp
  qed
  show "sublist (strip comment) ?T"
  proof (cases "blank comment")
    case True
    then have "strip comment = []" by (simp add: blank_strip)
    then show ?thesis by simp
  next
    case False
    then have nbR: "\<not> blank ?R" by (simp add: blank_join_Cons)
    with assms have T: "?T = (dropWhile isspace count @ [CHR 0x0A]) @ rstrip ?R"
      by (simp add: strip_xyz_text)
    have "sublist (strip comment) (rstrip ?R)"
    proof (cases "blank (join ''\<newline>'' atoms)")
      case True
      then have "rstrip ?R = rstrip comment" by (rule rstrip_rest_blank)
      then show ?thesis by (simp add: sublist_strip_rstrip)
    next
      case False
      then have "rstrip ?R = comment @ CHR 0x0A # rstrip (join ''\<newline>'' atoms)"
        by (rule rstrip_rest_atoms)
      moreover have "sublist (strip comment) (comment @ CHR 0x0A # rstrip (join ''\<newline>'' atoms))"
        using sublist_strip_self [of comment]
        by (metis sublist_append_rightI sublist_order.order.trans)
      ultimately show ?thesis by simp
    qed
    then have "sublist (strip comment) ((dropWhile isspace count @ [CHR 0x0A]) @ rstrip ?R)"
      by (metis sublist_append_leftI sublist_order.order.trans)
    with T show ?thesis by simp
  qed
qed

text \<open>With an atom line that is not blank, the count line and the comment line stay whole.\<close>

lemma strip_xyz_text_atoms:
  assumes "\<not> blank count" and "\<exists>a\<in>set atoms. \<not> blank a"
  shows "strip (xyz_text count comment atoms)
     = dropWhile isspace count @ CHR 0x0A # comment @ CHR 0x0A # rstrip (join ''\<newline>'' atoms)"
proof -
  have nb: "\<not> blank (join ''\<newline>'' atoms)" using assms(2) by (simp add: blank_join)
  then have "\<not> blank (join ''\<newline>'' (comment # atoms))"
    using assms(2) by (simp add: blank_join_Cons)
  with assms(1) have "strip (xyz_text count comment atoms)
     = dropWhile isspace count @ CHR 0x0A # rstrip (join ''\<newline>'' (comment # atoms))"
    by (rule strip_xyz_text)
  then show ?thesis using nb by (simp add: rstrip_rest_atoms)
qed

subsection \<open>Auto-format switched off\<close>

lemma sublist_in_middle: "sublist x t \<Longrightarrow> sublist x (a @ t @ b)"
proof -
  assume "sublist x t"
  then obtain ps ss where "t = ps @ x @ ss" by (auto simp: sublist_def)
  then have "a @ t @ b = (a @ ps) @ x @ (ss @ b)" by simp
  then show ?thesis by (simp only: sublist_appendI)
qed

lemma build_input_auto_off:
  assumes "auto_format_coords b = 0"
  shows "coords b = Inr (strip (coords_text b))"
    and "build_input b
       = Inr (header b @ res_block b @ cpcm_block b @ custom_block_text b
              @ (if strip (coords_text b) = [] then []
                 else ''* xyz '' @ charge b @ '' '' @ mult b @ ''\<newline>''
                      @ strip (coords_text b) @ ''\<newline>*\<newline>''))"
proof -
  show c: "coords b = Inr (strip (coords_text b))" using assms by (simp add: coords_def)
  show "build_input b
       = Inr (header b @ res_block b @ cpcm_block b @ custom_block_text b
              @ (if strip (coords_text b) = [] then []
                 else ''* xyz '' @ charge b @ '' '' @ mult b @ ''\<newline>''
                      @ strip (coords_text b) @ ''\<newline>*\<newline>''))"
    by (simp add: build_input_def c xyz_block_def)
qed

section \<open>The claims\<close>

subsection \<open>C1: the example document\<close>

text \<open>
  Claim C1, as amended. For the job type "Single Point (SP)", method B3LYP, basis def2-SVP,
  only the TightSCF flag set, charge 0, multiplicity 1, maxcore 2000, nprocs 4, no custom
  keywords, and coordinate and custom-block texts that are empty (or hold only
  whitespace, as the newline that an empty widget returns), the document is the header
  line \<^verbatim>\<open>! B3LYP def2-SVP SP TightSCF\<close>, a blank line, \<^verbatim>\<open>%maxcore 2000\<close>,
  \<^verbatim>\<open>%pal nprocs 4 end\<close> and a blank line, with no solvent, custom or coordinate block,
  whatever the solvent selection and the auto-format switch are. The header holds the
  job keyword \<^verbatim>\<open>SP\<close> that the table gives for the job type.
\<close>

theorem C1_example_document:
  assumes "\<forall>c\<in>set ct. isspace c" and "\<forall>c\<in>set cbt. isspace c"
  shows "build_input
     \<lparr>job_type = ''Single Point (SP)'', method_name = ''B3LYP'', basis = ''def2-SVP'',
      charge = ''0'', mult = ''1'', custom_keywords = [], solvent = sol,
      tightscf = 1, d3bj = 0, rij = 0, grid5 = 0, cpcm = 0, verytightscf = 0,
      slowconv = 0, defgrid3 = 0, defgridx = 0, maxcore = ''2000'', nprocs = ''4'',
      auto_format_coords = af, coords_text = ct, cb_text = cbt\<rparr>
   = Inr ''! B3LYP def2-SVP SP TightSCF\<newline>\<newline>%maxcore 2000\<newline>%pal nprocs 4 end\<newline>\<newline>''"
proof -
  let ?b = "\<lparr>job_type = ''Single Point (SP)'', method_name = ''B3LYP'', basis = ''def2-SVP'',
      charge = ''0'', mult = ''1'', custom_keywords = [], solvent = sol,
      tightscf = 1, d3bj = 0, rij = 0, grid5 = 0, cpcm = 0, verytightscf = 0,
      slowconv = 0, defgrid3 = 0, defgridx = 0, maxcore = ''2000'', nprocs = ''4'',
      auto_format_coords = af, coords_text = ct, cb_text = cbt\<rparr>"
  have kw: "build_keywords ?b = ''SP TightSCF''"
    by (simp add: build_keywords_def build_keywords_parts_def extras_vars_def
        JOB_KEYWORDS_get_def JOB_KEYWORDS_def strip_def isspace_def)
  have h: "header ?b = ''! B3LYP def2-SVP SP TightSCF\<newline>\<newline>''"
    by (simp add: header_def kw) (simp add: strip_def isspace_def)
  have r: "res_block ?b = ''%maxcore 2000\<newline>%pal nprocs 4 end\<newline>\<newline>''"
    by (simp add: res_block_def)
  have c: "cpcm_block ?b = []"
    by (simp add: cpcm_block_def kw)
  have x: "coords ?b = Inr []"
    using assms(1) by (simp add: coords_def format_coords_blank strip_Nil_iff [THEN iffD2])
  have cb: "custom_block_text ?b = []"
    using assms(2) by (simp add: custom_block_text_def strip_Nil_iff [THEN iffD2])
  show ?thesis
    by (simp add: build_input_def h r c x cb xyz_block_def)
qed

text \<open>The theorem at the initial object.\<close>

theorem C1_example_document_witness:
  "build_input init_builder
   = Inr ''! B3LYP def2-SVP SP TightSCF\<newline>\<newline>%maxcore 2000\<newline>%pal nprocs 4 end\<newline>\<newline>''"
  using C1_example_document [of "''\<newline>''" "''\<newline>''" "''Water''" 1]
  by (simp add: init_builder_def isspace_def)

text \<open>
  The document that claim C1 states, with the header line \<^verbatim>\<open>! B3LYP def2-SVP TightSCF\<close>,
  is not what the code returns on that input.
\<close>

theorem C1_claimed_document_counterexample:
  "build_input (init_builder\<lparr>coords_text := [], cb_text := []\<rparr>)
   \<noteq> Inr ''! B3LYP def2-SVP TightSCF\<newline>\<newline>%maxcore 2000\<newline>%pal nprocs 4 end\<newline>\<newline>''"
  by code_simp

subsection \<open>C2: the header line\<close>

text \<open>
  Claim C2, as amended. For every input the header is the marker \<^verbatim>\<open>! \<close>, the stripped
  method, one space, the stripped basis, and then, each after one space, the tokens in
  this order: the job keyword if the table gives one, the label of every flag that is
  set in the fixed order TightSCF, D3BJ, RIJCOSX, Grid5, CPCM, VeryTightSCF, SlowConv,
  DefGrid3, DefGridX, and the stripped custom keywords if they are not empty; the line
  ends with a newline and one blank line. With no flag set and empty custom keywords the
  header holds the method, the basis and the job keyword (if any) and nothing else. The
  header is the start of the document. So the method and the basis come before the job
  keyword, not after it.
\<close>

theorem C2_header_line:
  "header b = ''! '' @ strip (method_name b) @ '' '' @ strip (basis b)
       @ concat (map (\<lambda>t. '' '' @ t) (job_tokens b @ flag_tokens b @ custom_tokens b))
       @ ''\<newline>\<newline>''
   \<and> (tightscf b = 0 \<and> d3bj b = 0 \<and> rij b = 0 \<and> grid5 b = 0 \<and> cpcm b = 0
        \<and> verytightscf b = 0 \<and> slowconv b = 0 \<and> defgrid3 b = 0 \<and> defgridx b = 0
        \<and> strip (custom_keywords b) = []
      \<longrightarrow> header b = ''! '' @ strip (method_name b) @ '' '' @ strip (basis b)
            @ (if JOB_KEYWORDS_get (job_type b) = [] then []
               else '' '' @ JOB_KEYWORDS_get (job_type b))
            @ ''\<newline>\<newline>'')
   \<and> (\<exists>rest. build_input b = Inr (header b @ rest))"
proof (intro conjI impI)
  show h: "header b = ''! '' @ strip (method_name b) @ '' '' @ strip (basis b)
       @ concat (map (\<lambda>t. '' '' @ t) (job_tokens b @ flag_tokens b @ custom_tokens b))
       @ ''\<newline>\<newline>''"
    by (rule header_tokens)
  show "\<exists>rest. build_input b = Inr (header b @ rest)"
    using build_input_segments [of b] by blast
  assume z: "tightscf b = 0 \<and> d3bj b = 0 \<and> rij b = 0 \<and> grid5 b = 0 \<and> cpcm b = 0
        \<and> verytightscf b = 0 \<and> slowconv b = 0 \<and> defgrid3 b = 0 \<and> defgridx b = 0
        \<and> strip (custom_keywords b) = []"
  then have "flag_tokens b = []" "custom_tokens b = []"
    by (simp_all add: flag_tokens_def custom_tokens_def)
  then have "concat (map (\<lambda>t. '' '' @ t) (job_tokens b @ flag_tokens b @ custom_tokens b))
     = (if JOB_KEYWORDS_get (job_type b) = [] then []
               else '' '' @ JOB_KEYWORDS_get (job_type b))"
    by (simp add: job_tokens_def)
  with h show "header b = ''! '' @ strip (method_name b) @ '' '' @ strip (basis b)
            @ (if JOB_KEYWORDS_get (job_type b) = [] then []
               else '' '' @ JOB_KEYWORDS_get (job_type b))
            @ ''\<newline>\<newline>''"
    by (simp only:)
qed

text \<open>The theorem at the initial object, with and without its one flag.\<close>

theorem C2_header_line_witness:
  "custom_keywords (init_builder\<lparr>tightscf := 0\<rparr>) = []
   \<and> header (init_builder\<lparr>tightscf := 0\<rparr>) = ''! B3LYP def2-SVP SP\<newline>\<newline>''
   \<and> header init_builder = ''! B3LYP def2-SVP SP TightSCF\<newline>\<newline>''"
  using C2_header_line [of "init_builder\<lparr>tightscf := 0\<rparr>"] C2_header_line [of init_builder]
  by (simp add: init_builder_def strip_def isspace_def JOB_KEYWORDS_get_def JOB_KEYWORDS_def
      job_tokens_def flag_tokens_def custom_tokens_def)

text \<open>
  The order that claim C2 states, job keyword first, gives another line than the code at
  the initial object.
\<close>

theorem C2_claimed_order_counterexample:
  "header init_builder = ''! B3LYP def2-SVP SP TightSCF\<newline>\<newline>''
   \<and> claimed_header_line init_builder = ''! SP B3LYP def2-SVP TightSCF''"
  by code_simp

subsection \<open>C3: the solvent block\<close>

text \<open>
  Claim C3. The solvent block is in the document, between the resource block and the
  custom block, exactly when the CPCM flag is set, or the keywords contain \<^verbatim>\<open>CPCM\<close>, or
  the job type is "Solvation"; it then holds the line \<^verbatim>\<open>smd true\<close> and the line
  \<^verbatim>\<open>SMDsolvent\<close> with the selected solvent in double quotes. With the flag set, solvent
  "Water" and job type "Single Point (SP)" the block contains \<^verbatim>\<open>SMDsolvent "Water"\<close>;
  with job type "Solvation" and the flag not set the block is there all the same.
\<close>

theorem C3_solvent_block:
  "cpcm_block b =
     (if cpcm b \<noteq> 0 \<or> str_in ''CPCM'' (build_keywords b) \<or> job_type b = ''Solvation''
      then ''%cpcm\<newline>  smd true\<newline>  SMDsolvent '' @ [CHR 0x22] @ solvent b @ [CHR 0x22]
           @ ''\<newline>end\<newline>\<newline>''
      else [])
   \<and> (\<exists>cs. build_input b
          = Inr (header b @ res_block b @ cpcm_block b @ custom_block_text b @ xyz_block b cs))
   \<and> (cpcm b \<noteq> 0 \<and> solvent b = ''Water'' \<and> job_type b = ''Single Point (SP)''
      \<longrightarrow> str_in (''SMDsolvent '' @ [CHR 0x22] @ ''Water'' @ [CHR 0x22]) (cpcm_block b))
   \<and> (job_type b = ''Solvation'' \<and> cpcm b = 0 \<longrightarrow> cpcm_block b \<noteq> [])"
proof (intro conjI impI)
  show "cpcm_block b =
     (if cpcm b \<noteq> 0 \<or> str_in ''CPCM'' (build_keywords b) \<or> job_type b = ''Solvation''
      then ''%cpcm\<newline>  smd true\<newline>  SMDsolvent '' @ [CHR 0x22] @ solvent b @ [CHR 0x22]
           @ ''\<newline>end\<newline>\<newline>''
      else [])"
    by (auto simp: cpcm_block_def)
  show "\<exists>cs. build_input b
          = Inr (header b @ res_block b @ cpcm_block b @ custom_block_text b @ xyz_block b cs)"
    using build_input_segments [of b] by blast
  show "cpcm_block b \<noteq> []" if "job_type b = ''Solvation'' \<and> cpcm b = 0"
    using that by (simp add: cpcm_block_def)
  show "str_in (''SMDsolvent '' @ [CHR 0x22] @ ''Water'' @ [CHR 0x22]) (cpcm_block b)"
    if "cpcm b \<noteq> 0 \<and> solvent b = ''Water'' \<and> job_type b = ''Single Point (SP)''"
  proof -
    from that have "cpcm_block b = ''%cpcm\<newline>  smd true\<newline>  SMDsolvent '' @ [CHR 0x22]
        @ ''Water'' @ [CHR 0x22] @ ''\<newline>end\<newline>\<newline>''"
      by (simp add: cpcm_block_def)
    then show ?thesis by simp
  qed
qed

text \<open>
  The theorem at the initial object with the flag set, with the job type "Solvation",
  and unchanged (no block).
\<close>

theorem C3_solvent_block_witness:
  "cpcm (init_builder\<lparr>cpcm := 1\<rparr>) \<noteq> 0
   \<and> str_in (''SMDsolvent '' @ [CHR 0x22] @ ''Water'' @ [CHR 0x22])
        (cpcm_block (init_builder\<lparr>cpcm := 1\<rparr>))
   \<and> cpcm (init_builder\<lparr>job_type := ''Solvation''\<rparr>) = 0
   \<and> cpcm_block (init_builder\<lparr>job_type := ''Solvation''\<rparr>) \<noteq> []
   \<and> cpcm_block init_builder = []"
  using C3_solvent_block [of "init_builder\<lparr>cpcm := 1\<rparr>"]
    C3_solvent_block [of "init_builder\<lparr>job_type := ''Solvation''\<rparr>"]
    C3_solvent_block [of init_builder]
  by (simp add: init_builder_def build_keywords_def build_keywords_parts_def extras_vars_def
      JOB_KEYWORDS_get_def JOB_KEYWORDS_def strip_def isspace_def)

subsection \<open>C4: the extended form loses its two header lines\<close>

text \<open>
  Claim C4, as amended. Take a count line that, trimmed, is made of decimal digits, a
  comment line and any number of atom lines, none of them with a line boundary inside,
  joined by newlines; let the comment line or one of the atom lines hold a character that
  is not whitespace, so that the trimmed text still has a second line. Then
  \<open>format_coords\<close> returns the atom lines, joined by newlines and trimmed: the count line
  and the comment line are gone. This is the coordinate text of the object when
  auto-format is on.
\<close>

theorem C4_extended_form:
  assumes "all_decimal (strip count)" and "is_line count" and "is_line comment"
    and "\<forall>a\<in>set atoms. is_line a"
    and "\<not> blank comment \<or> (\<exists>a\<in>set atoms. \<not> blank a)"
  shows "format_coords (xyz_text count comment atoms) = Inr (strip (join ''\<newline>'' atoms))
    \<and> (auto_format_coords b \<noteq> 0 \<and> coords_text b = xyz_text count comment atoms
        \<longrightarrow> coords b = Inr (strip (join ''\<newline>'' atoms)))"
proof -
  have "isdigit (strip count)" using assms(1) by (rule all_decimal_isdigit)
  moreover have "\<not> blank (join ''\<newline>'' (comment # atoms))"
    using assms(5) by (simp add: blank_join_Cons)
  ultimately have "format_coords (xyz_text count comment atoms)
      = Inr (strip (join ''\<newline>'' atoms))"
    using assms(2,3,4) by (intro format_coords_xyz_text)
  then show ?thesis by (simp add: coords_def)
qed

text \<open>
  The theorem at a water molecule, the file ending in a newline, with auto-format on as
  in the initial object.
\<close>

theorem C4_extended_form_witness:
  "format_coords ''3\<newline>water\<newline>O 0.0 0.0 0.0\<newline>H 0.0 0.0 1.0\<newline>H 0.0 1.0 0.0\<newline>''
     = Inr ''O 0.0 0.0 0.0\<newline>H 0.0 0.0 1.0\<newline>H 0.0 1.0 0.0''
   \<and> auto_format_coords (init_builder\<lparr>coords_text :=
        ''3\<newline>water\<newline>O 0.0 0.0 0.0\<newline>H 0.0 0.0 1.0\<newline>H 0.0 1.0 0.0\<newline>''\<rparr>) \<noteq> 0
   \<and> coords (init_builder\<lparr>coords_text :=
        ''3\<newline>water\<newline>O 0.0 0.0 0.0\<newline>H 0.0 0.0 1.0\<newline>H 0.0 1.0 0.0\<newline>''\<rparr>)
     = Inr ''O 0.0 0.0 0.0\<newline>H 0.0 0.0 1.0\<newline>H 0.0 1.0 0.0''"
  using C4_extended_form [of "''3''" "''water''"
      "[''O 0.0 0.0 0.0'', ''H 0.0 0.0 1.0'', ''H 0.0 1.0 0.0'', []]"
      "init_builder\<lparr>coords_text :=
        ''3\<newline>water\<newline>O 0.0 0.0 0.0\<newline>H 0.0 0.0 1.0\<newline>H 0.0 1.0 0.0\<newline>''\<rparr>"]
  by (simp add: all_decimal_def is_line_def is_linebreak_def blank_def isspace_def strip_def
      xyz_text_def init_builder_def)

text \<open>
  Without a second line after trimming the claim fails: a count line \<^verbatim>\<open>0\<close> with an empty
  comment line and no atom line is returned as it is, count line included, where the
  claim has the empty text. This is the text of the widget after one types a count and
  a newline.
\<close>

theorem C4_blank_rest_counterexample:
  "all_decimal (strip ''0'') \<and> is_line ''0'' \<and> is_line []
   \<and> format_coords (xyz_text ''0'' [] []) = Inr ''0''
   \<and> strip (join ''\<newline>'' []) = []
   \<and> format_coords ''0\<newline>\<newline>'' = Inr ''0''"
  by code_simp

subsection \<open>C5: bare coordinate text passes through\<close>

text \<open>
  Claim C5 says that formatting leaves bare coordinate text alone: for a text that is not
  empty and whose first line, trimmed, is not composed entirely of decimal digits, the
  result is the trimmed text. The code does not do so on the text below. Its first line
  is the superscript two (U+00B2), which is no decimal digit and no atom count; the test
  \<^verbatim>\<open>lines[0].strip().isdigit()\<close> of the code accepts it all the same, and the first two
  lines are dropped: the result is \<^verbatim>\<open>H 0 0 0\<close>, not the trimmed text, which is the text
  itself.
\<close>

theorem C5_superscript_digit_failing_input:
  "\<not> blank (CHR 0xB2 # ''\<newline>c\<newline>H 0 0 0'')
   \<and> \<not> all_decimal (strip (takeWhile (\<lambda>c. \<not> is_linebreak c) (strip (CHR 0xB2 # ''\<newline>c\<newline>H 0 0 0''))))
   \<and> format_coords (CHR 0xB2 # ''\<newline>c\<newline>H 0 0 0'') = Inr ''H 0 0 0''
   \<and> strip (CHR 0xB2 # ''\<newline>c\<newline>H 0 0 0'') = CHR 0xB2 # ''\<newline>c\<newline>H 0 0 0''"
  by code_simp

subsection \<open>C6: the order of assembly\<close>

text \<open>
  Claim C6. For every input the document is, in this order: the header (the marker, the
  header line, a blank line), the resource block with its blank line, the solvent block
  with its blank line if there is one, the trimmed custom-block text with a blank line
  if it is not empty, and the coordinate block if the coordinate text used is not empty.
  The header and the resource block are always there. With custom-block text that is not
  empty and empty coordinates the document ends with the custom block and its blank line.
\<close>

theorem C6_assembly_order:
  "\<exists>cs. coords b = Inr cs
     \<and> build_input b
        = Inr (header b @ res_block b @ cpcm_block b
               @ (if strip (cb_text b) = [] then [] else strip (cb_text b) @ ''\<newline>\<newline>'')
               @ (if cs = [] then []
                  else ''* xyz '' @ charge b @ '' '' @ mult b @ ''\<newline>'' @ cs @ ''\<newline>*\<newline>''))
     \<and> (\<exists>line. header b = ''! '' @ line @ ''\<newline>\<newline>'')
     \<and> res_block b = ''%maxcore '' @ maxcore b @ ''\<newline>%pal nprocs '' @ nprocs b @ '' end\<newline>\<newline>''
     \<and> (cpcm_block b = [] \<or> (\<exists>blk. cpcm_block b = blk @ ''\<newline>end\<newline>\<newline>''))
     \<and> (strip (cb_text b) \<noteq> [] \<and> cs = []
        \<longrightarrow> (\<exists>doc. build_input b = Inr doc \<and> suffix (strip (cb_text b) @ ''\<newline>\<newline>'') doc))"
proof -
  obtain cs where cs: "coords b = Inr cs"
    and doc: "build_input b
       = Inr (header b @ res_block b @ cpcm_block b @ custom_block_text b @ xyz_block b cs)"
    using build_input_segments [of b] by blast
  have cb: "custom_block_text b
      = (if strip (cb_text b) = [] then [] else strip (cb_text b) @ ''\<newline>\<newline>'')"
    by (simp add: custom_block_text_def Let_def)
  have xyz: "xyz_block b cs = (if cs = [] then []
       else ''* xyz '' @ charge b @ '' '' @ mult b @ ''\<newline>'' @ cs @ ''\<newline>*\<newline>'')"
    by (simp add: xyz_block_def)
  have h: "\<exists>line. header b = ''! '' @ line @ ''\<newline>\<newline>''"
    unfolding header_tokens by (metis append.assoc)
  have r: "res_block b
      = ''%maxcore '' @ maxcore b @ ''\<newline>%pal nprocs '' @ nprocs b @ '' end\<newline>\<newline>''"
    by (simp add: res_block_def)
  have c: "cpcm_block b = [] \<or> (\<exists>blk. cpcm_block b = blk @ ''\<newline>end\<newline>\<newline>'')"
  proof (cases "cpcm_block b = []")
    case False
    then have "cpcm_block b = (''%cpcm\<newline>  smd true\<newline>  SMDsolvent '' @ [CHR 0x22] @ solvent b
         @ [CHR 0x22]) @ ''\<newline>end\<newline>\<newline>''"
      by (simp add: cpcm_block_def split: if_splits)
    then show ?thesis by blast
  qed simp
  have e: "strip (cb_text b) \<noteq> [] \<and> cs = []
        \<longrightarrow> (\<exists>doc. build_input b = Inr doc \<and> suffix (strip (cb_text b) @ ''\<newline>\<newline>'') doc)"
  proof
    assume a: "strip (cb_text b) \<noteq> [] \<and> cs = []"
    then have "build_input b
        = Inr ((header b @ res_block b @ cpcm_block b) @ (strip (cb_text b) @ ''\<newline>\<newline>''))"
      using doc by (simp add: cb xyz_block_def)
    then show "\<exists>doc. build_input b = Inr doc \<and> suffix (strip (cb_text b) @ ''\<newline>\<newline>'') doc"
      by (auto simp: suffix_def)
  qed
  from cs doc h r c e show ?thesis by (auto simp only: cb xyz)
qed

text \<open>The theorem at the initial object with one custom block.\<close>

theorem C6_assembly_order_witness:
  "strip (cb_text (init_builder\<lparr>cb_text := ''%scf\<newline>  MaxIter 200\<newline>end\<newline>''\<rparr>)) \<noteq> []
   \<and> build_input (init_builder\<lparr>cb_text := ''%scf\<newline>  MaxIter 200\<newline>end\<newline>''\<rparr>)
     = Inr ''! B3LYP def2-SVP SP TightSCF\<newline>\<newline>%maxcore 2000\<newline>%pal nprocs 4 end\<newline>\<newline>%scf\<newline>  MaxIter 200\<newline>end\<newline>\<newline>''"
  using C6_assembly_order [of "init_builder\<lparr>cb_text := ''%scf\<newline>  MaxIter 200\<newline>end\<newline>''\<rparr>"]
  by (auto simp: eval_defs)

subsection \<open>C7: the coordinate block\<close>

text \<open>
  Claim C7. The coordinate block is the last segment of the document. It is there
  exactly when the coordinate text used (formatted, or only trimmed) is not empty, and
  it is then the line \<^verbatim>\<open>* xyz\<close> with the charge and the multiplicity as they are, the
  coordinate lines, and the line \<^verbatim>\<open>*\<close>. For an empty or blank coordinate text the
  assembler adds no coordinate directive at all: the document is the header, the
  resource block, the solvent block and the custom block, and nothing after them.
\<close>

theorem C7_coordinate_block:
  "\<exists>cs. coords b = Inr cs
     \<and> build_input b
        = Inr (header b @ res_block b @ cpcm_block b @ custom_block_text b @ xyz_block b cs)
     \<and> (xyz_block b cs \<noteq> [] \<longleftrightarrow> cs \<noteq> [])
     \<and> (cs \<noteq> [] \<longrightarrow>
          xyz_block b cs = ''* xyz '' @ charge b @ '' '' @ mult b @ ''\<newline>'' @ cs @ ''\<newline>*\<newline>'')
     \<and> (cs = [] \<longrightarrow>
          build_input b = Inr (header b @ res_block b @ cpcm_block b @ custom_block_text b))
     \<and> (blank (coords_text b) \<longrightarrow>
          cs = []
          \<and> build_input b = Inr (header b @ res_block b @ cpcm_block b @ custom_block_text b))"
proof -
  obtain cs where cs: "coords b = Inr cs"
    and doc: "build_input b
       = Inr (header b @ res_block b @ cpcm_block b @ custom_block_text b @ xyz_block b cs)"
    using build_input_segments [of b] by blast
  have 1: "xyz_block b cs \<noteq> [] \<longleftrightarrow> cs \<noteq> []" by (simp add: xyz_block_def)
  have 2: "cs \<noteq> [] \<longrightarrow>
      xyz_block b cs = ''* xyz '' @ charge b @ '' '' @ mult b @ ''\<newline>'' @ cs @ ''\<newline>*\<newline>''"
    by (simp add: xyz_block_def)
  have 3: "cs = [] \<longrightarrow>
      build_input b = Inr (header b @ res_block b @ cpcm_block b @ custom_block_text b)"
    using doc by (simp add: xyz_block_def)
  have "blank (coords_text b) \<longrightarrow> cs = []"
    using cs coords_blank [of b] by auto
  with 3 have 4: "blank (coords_text b) \<longrightarrow>
          cs = []
          \<and> build_input b = Inr (header b @ res_block b @ cpcm_block b @ custom_block_text b)"
    by blast
  from cs doc 1 2 3 4 show ?thesis by blast
qed

text \<open>
  The theorem at the initial object with two atom lines, where the block closes the
  document, and at the initial object itself, where the coordinate text is blank and the
  document ends with the resource block.
\<close>

theorem C7_coordinate_block_witness:
  "build_input (init_builder\<lparr>coords_text := ''H 0.0 0.0 0.0\<newline>H 0.0 0.0 0.74\<newline>''\<rparr>)
     = Inr ''! B3LYP def2-SVP SP TightSCF\<newline>\<newline>%maxcore 2000\<newline>%pal nprocs 4 end\<newline>\<newline>* xyz 0 1\<newline>H 0.0 0.0 0.0\<newline>H 0.0 0.0 0.74\<newline>*\<newline>''
   \<and> blank (coords_text init_builder)
   \<and> build_input init_builder
     = Inr ''! B3LYP def2-SVP SP TightSCF\<newline>\<newline>%maxcore 2000\<newline>%pal nprocs 4 end\<newline>\<newline>''"
  using C7_coordinate_block [of "init_builder\<lparr>coords_text := ''H 0.0 0.0 0.0\<newline>H 0.0 0.0 0.74\<newline>''\<rparr>"]
    C7_coordinate_block [of init_builder]
  by (auto simp: eval_defs blank_def splitlines.simps [of "''H 0.0 0.0 0.0\<newline>H 0.0 0.0 0.74''"]
      is_linebreak_def isdigit_def is_digit_char_def)

subsection \<open>C8: auto-format off\<close>

text \<open>
  Claim C8. With auto-format off the coordinate text used is the raw text, trimmed, and
  nothing else is done to it: the coordinate block of the document holds it as it is.
  For every text in the extended form (a count line that, trimmed, is made of decimal
  digits, a comment line, atom lines) the document then contains the trimmed count line
  and the trimmed comment line; when an atom line is not blank, it contains the count
  line and the comment line whole, one after the other, each as a line of its own.
\<close>

theorem C8_auto_format_off:
  assumes "auto_format_coords b = 0"
  shows "coords b = Inr (strip (coords_text b))
    \<and> build_input b
       = Inr (header b @ res_block b @ cpcm_block b @ custom_block_text b
              @ (if strip (coords_text b) = [] then []
                 else ''* xyz '' @ charge b @ '' '' @ mult b @ ''\<newline>''
                      @ strip (coords_text b) @ ''\<newline>*\<newline>''))
    \<and> (coords_text b = xyz_text count comment atoms \<and> all_decimal (strip count)
         \<and> is_line count \<and> is_line comment \<and> (\<forall>a\<in>set atoms. is_line a)
       \<longrightarrow> (\<exists>doc. build_input b = Inr doc
             \<and> str_in (strip count) doc \<and> str_in (strip comment) doc
             \<and> ((\<exists>a\<in>set atoms. \<not> blank a)
                \<longrightarrow> str_in (''\<newline>'' @ dropWhile isspace count @ ''\<newline>'' @ comment @ ''\<newline>'')
                      doc)))"
proof (intro conjI impI)
  show "coords b = Inr (strip (coords_text b))"
    using assms by (rule build_input_auto_off(1))
  show "build_input b
       = Inr (header b @ res_block b @ cpcm_block b @ custom_block_text b
              @ (if strip (coords_text b) = [] then []
                 else ''* xyz '' @ charge b @ '' '' @ mult b @ ''\<newline>''
                      @ strip (coords_text b) @ ''\<newline>*\<newline>''))"
    using assms by (rule build_input_auto_off(2))
next
  assume a: "coords_text b = xyz_text count comment atoms \<and> all_decimal (strip count)
         \<and> is_line count \<and> is_line comment \<and> (\<forall>a\<in>set atoms. is_line a)"
  define T where "T = strip (coords_text b)"
  define P where "P = header b @ res_block b @ cpcm_block b @ custom_block_text b
       @ ''* xyz '' @ charge b @ '' '' @ mult b"
  define D where "D = (P @ ''\<newline>'') @ T @ ''\<newline>*\<newline>''"
  from a have "strip count \<noteq> []" by (simp add: all_decimal_def)
  then have nbc: "\<not> blank count" by (simp add: blank_strip)
  have Tx: "T = strip (xyz_text count comment atoms)" using a by (simp add: T_def)
  have s1: "sublist (strip count) T"
    unfolding Tx using nbc by (rule strip_xyz_text_lines(1))
  have s2: "sublist (strip comment) T"
    unfolding Tx using nbc by (rule strip_xyz_text_lines(2))
  from s1 \<open>strip count \<noteq> []\<close> have ne: "T \<noteq> []" by auto
  have "build_input b = Inr (header b @ res_block b @ cpcm_block b @ custom_block_text b
              @ (if T = [] then []
                 else ''* xyz '' @ charge b @ '' '' @ mult b @ ''\<newline>'' @ T @ ''\<newline>*\<newline>''))"
    unfolding T_def using assms by (rule build_input_auto_off(2))
  then have doc: "build_input b = Inr D"
    using ne by (simp add: D_def P_def)
  have inT: "sublist x D" if "sublist x T" for x
    using that unfolding D_def by (rule sublist_in_middle)
  have 3: "sublist (''\<newline>'' @ dropWhile isspace count @ ''\<newline>'' @ comment @ ''\<newline>'') D"
    if "\<exists>a\<in>set atoms. \<not> blank a"
  proof -
    have "T = dropWhile isspace count @ CHR 0x0A # comment @ CHR 0x0A
          # rstrip (join ''\<newline>'' atoms)"
      unfolding Tx using nbc that by (rule strip_xyz_text_atoms)
    then have "D = P @ (''\<newline>'' @ dropWhile isspace count @ ''\<newline>'' @ comment @ ''\<newline>'')
         @ (rstrip (join ''\<newline>'' atoms) @ ''\<newline>*\<newline>'')"
      unfolding D_def by simp
    then show ?thesis by (simp only: sublist_appendI)
  qed
  have "str_in (strip count) D" using inT [OF s1] by (simp only: str_in_sublist)
  moreover have "str_in (strip comment) D" using inT [OF s2] by (simp only: str_in_sublist)
  moreover have "(\<exists>a\<in>set atoms. \<not> blank a)
      \<longrightarrow> str_in (''\<newline>'' @ dropWhile isspace count @ ''\<newline>'' @ comment @ ''\<newline>'') D"
    using 3 by (simp only: str_in_sublist) blast
  ultimately show "\<exists>doc. build_input b = Inr doc
             \<and> str_in (strip count) doc \<and> str_in (strip comment) doc
             \<and> ((\<exists>a\<in>set atoms. \<not> blank a)
                \<longrightarrow> str_in (''\<newline>'' @ dropWhile isspace count @ ''\<newline>'' @ comment @ ''\<newline>'')
                      doc)"
    using doc by (intro exI [of _ D] conjI)
qed

text \<open>
  The theorem at a hydrogen molecule in the extended form: the count line and the
  comment line are in the document.
\<close>

theorem C8_auto_format_off_witness:
  "auto_format_coords (init_builder\<lparr>auto_format_coords := 0,
       coords_text := ''2\<newline>hydrogen\<newline>H 0.0 0.0 0.0\<newline>H 0.0 0.0 0.74\<newline>''\<rparr>) = 0
   \<and> build_input (init_builder\<lparr>auto_format_coords := 0,
       coords_text := ''2\<newline>hydrogen\<newline>H 0.0 0.0 0.0\<newline>H 0.0 0.0 0.74\<newline>''\<rparr>)
     = Inr ''! B3LYP def2-SVP SP TightSCF\<newline>\<newline>%maxcore 2000\<newline>%pal nprocs 4 end\<newline>\<newline>* xyz 0 1\<newline>2\<newline>hydrogen\<newline>H 0.0 0.0 0.0\<newline>H 0.0 0.0 0.74\<newline>*\<newline>''
   \<and> (\<exists>doc. build_input (init_builder\<lparr>auto_format_coords := 0,
       coords_text := ''2\<newline>hydrogen\<newline>H 0.0 0.0 0.0\<newline>H 0.0 0.0 0.74\<newline>''\<rparr>) = Inr doc
        \<and> str_in ''\<newline>2\<newline>hydrogen\<newline>'' doc)"
proof -
  let ?t = "''2\<newline>hydrogen\<newline>H 0.0 0.0 0.0\<newline>H 0.0 0.0 0.74\<newline>''"
  let ?b = "init_builder\<lparr>auto_format_coords := 0, coords_text := ?t\<rparr>"
  let ?atoms = "[''H 0.0 0.0 0.0'', ''H 0.0 0.0 0.74'', []]"
  have 0: "auto_format_coords ?b = 0" by simp
  note inst = C8_auto_format_off [OF 0, of "''2''" "''hydrogen''" "?atoms"]
  have st: "strip ?t = ''2\<newline>hydrogen\<newline>H 0.0 0.0 0.0\<newline>H 0.0 0.0 0.74''"
    by (simp add: strip_def isspace_def)
  have h: "header ?b = ''! B3LYP def2-SVP SP TightSCF\<newline>\<newline>''"
    by code_simp
  have r: "res_block ?b = ''%maxcore 2000\<newline>%pal nprocs 4 end\<newline>\<newline>''"
    by code_simp
  have c: "cpcm_block ?b = []" by code_simp
  have cb: "custom_block_text ?b = []" by code_simp
  have ch: "charge ?b = ''0''" "mult ?b = ''1''" "coords_text ?b = ?t"
    by (simp_all add: init_builder_def)
  from inst have "build_input ?b
       = Inr (header ?b @ res_block ?b @ cpcm_block ?b @ custom_block_text ?b
              @ (if strip (coords_text ?b) = [] then []
                 else ''* xyz '' @ charge ?b @ '' '' @ mult ?b @ ''\<newline>''
                      @ strip (coords_text ?b) @ ''\<newline>*\<newline>''))"
    by (elim conjE)
  then have 1: "build_input ?b
     = Inr ''! B3LYP def2-SVP SP TightSCF\<newline>\<newline>%maxcore 2000\<newline>%pal nprocs 4 end\<newline>\<newline>* xyz 0 1\<newline>2\<newline>hydrogen\<newline>H 0.0 0.0 0.0\<newline>H 0.0 0.0 0.74\<newline>*\<newline>''"
    unfolding h r c cb ch st by simp
  have x: "coords_text ?b = xyz_text ''2'' ''hydrogen'' ?atoms"
    by (simp add: init_builder_def xyz_text_def)
  have s2: "strip ''2'' = ''2''" by (simp add: strip_def isspace_def)
  have hy: "all_decimal (strip ''2'') \<and> is_line ''2'' \<and> is_line ''hydrogen''
      \<and> (\<forall>a\<in>set ?atoms. is_line a)"
    unfolding s2 by (simp add: all_decimal_def is_line_def is_linebreak_def)
  have nb: "\<exists>a\<in>set ?atoms. \<not> blank a" by (simp add: blank_def isspace_def)
  have dw: "dropWhile isspace ''2'' = ''2''" by (simp add: isspace_def)
  from inst x hy nb have "\<exists>doc. build_input ?b = Inr doc
      \<and> str_in (''\<newline>'' @ dropWhile isspace ''2'' @ ''\<newline>'' @ ''hydrogen'' @ ''\<newline>'') doc"
    by blast
  then have 2: "\<exists>doc. build_input ?b = Inr doc \<and> str_in ''\<newline>2\<newline>hydrogen\<newline>'' doc"
    unfolding dw by simp
  from 0 1 2 show ?thesis by blast
qed

subsection \<open>C9: no failure, one result\<close>

text \<open>
  Claim C9. \<open>build_input\<close> returns a document for every object: no branch of the three
  methods raises (the only indexing, \<^verbatim>\<open>lines[0]\<close>, is behind the test
  \<^verbatim>\<open>len(lines) > 1\<close>). The result is a function of the object read, so equal objects
  give equal documents. A job type that is not a key of the table gives the empty
  keyword, and the document is the one of the empty job type. Charge and solvent are
  texts, embedded as they are.
\<close>

theorem C9_total_deterministic:
  "(\<exists>doc. build_input b = Inr doc)
   \<and> (b = b' \<longrightarrow> build_input b = build_input b')
   \<and> (job_type b \<notin> fst ` set JOB_KEYWORDS
      \<longrightarrow> JOB_KEYWORDS_get (job_type b) = []
          \<and> build_input b = build_input (b\<lparr>job_type := []\<rparr>))"
  using build_input_segments [of b] unknown_job_type [of b] by blast

text \<open>
  The theorem at a job type that the table does not have, with a charge that is no number
  and a solvent that the menu does not offer.
\<close>

theorem C9_total_deterministic_witness:
  "job_type (init_builder\<lparr>job_type := ''Benchmark'', charge := ''+x'', solvent := ''Brine''\<rparr>)
     \<notin> fst ` set JOB_KEYWORDS
   \<and> build_input (init_builder\<lparr>job_type := ''Benchmark'', charge := ''+x'', solvent := ''Brine''\<rparr>)
     = Inr ''! B3LYP def2-SVP TightSCF\<newline>\<newline>%maxcore 2000\<newline>%pal nprocs 4 end\<newline>\<newline>''"
  using C9_total_deterministic
    [of "init_builder\<lparr>job_type := ''Benchmark'', charge := ''+x'', solvent := ''Brine''\<rparr>"
        init_builder]
  by (auto simp: eval_defs build_input_def)

subsection \<open>C10: the trigger is a substring test\<close>

text \<open>
  Claim C10. Whenever the keywords contain the characters \<^verbatim>\<open>CPCM\<close> anywhere, the solvent
  block is emitted, whatever the CPCM flag and the job type are. The custom keywords
  bring the characters into the keywords also when they stand inside a longer word, as
  in \<^verbatim>\<open>NoCPCM\<close>, and so does a job keyword that contains them.
\<close>

theorem C10_substring_trigger:
  "(str_in ''CPCM'' (build_keywords b)
      \<longrightarrow> cpcm_block b = ''%cpcm\<newline>  smd true\<newline>  SMDsolvent '' @ [CHR 0x22] @ solvent b
            @ [CHR 0x22] @ ''\<newline>end\<newline>\<newline>'')
   \<and> (str_in ''CPCM'' (custom_keywords b) \<longrightarrow> str_in ''CPCM'' (build_keywords b))
   \<and> (str_in ''CPCM'' (JOB_KEYWORDS_get (job_type b)) \<longrightarrow> str_in ''CPCM'' (build_keywords b))"
  by (simp add: cpcm_block_def custom_keyword_CPCM job_keyword_CPCM)

text \<open>
  The theorem at the initial object with the custom keyword \<^verbatim>\<open>NoCPCM\<close>: flag not set, job
  type "Single Point (SP)", and the block is emitted; and with the job type "Solvation",
  whose keyword holds \<^verbatim>\<open>CPCM\<close>.
\<close>

theorem C10_substring_trigger_witness:
  "str_in ''CPCM'' (custom_keywords (init_builder\<lparr>custom_keywords := ''NoCPCM''\<rparr>))
   \<and> cpcm (init_builder\<lparr>custom_keywords := ''NoCPCM''\<rparr>) = 0
   \<and> job_type (init_builder\<lparr>custom_keywords := ''NoCPCM''\<rparr>) \<noteq> ''Solvation''
   \<and> cpcm_block (init_builder\<lparr>custom_keywords := ''NoCPCM''\<rparr>)
       = ''%cpcm\<newline>  smd true\<newline>  SMDsolvent '' @ [CHR 0x22] @ ''Water''
            @ [CHR 0x22] @ ''\<newline>end\<newline>\<newline>''
   \<and> str_in ''CPCM'' (JOB_KEYWORDS_get (job_type (init_builder\<lparr>job_type := ''Solvation''\<rparr>)))
   \<and> str_in ''CPCM'' (build_keywords (init_builder\<lparr>job_type := ''Solvation''\<rparr>))"
  using C10_substring_trigger [of "init_builder\<lparr>custom_keywords := ''NoCPCM''\<rparr>"]
    C10_substring_trigger [of "init_builder\<lparr>job_type := ''Solvation''\<rparr>"]
  by (simp add: init_builder_def Solvation_keyword)
end
